theory Spec2Isabelle
  imports Main
begin

section \<open>JSON values and the Python operations the backends apply to them\<close>

text \<open>
  The backends exchange one JSON value per line. A decoded value is what Python's
  \<open>json.loads\<close> returns: \<open>None\<close>, a bool, an int, a str, a list or a dict. Numbers are
  integers here (a number with a fraction or an exponent decodes to a float, which the
  model leaves out). A dict is the list of its items, keys distinct, in insertion order.
  Strings are byte sequences in UTF-8.
\<close>

datatype json =
    JNull
  | JBool bool
  | JInt int
  | JStr string
  | JArr "json list"
  | JObj "(string \<times> json) list"

text \<open>\<open>d.get(k)\<close> and \<open>d.get(k, default)\<close> on a dict; \<open>None\<close> is \<open>JNull\<close>.\<close>

definition dict_get_default :: "(string \<times> json) list \<Rightarrow> string \<Rightarrow> json \<Rightarrow> json" where
  "dict_get_default kvs k dflt = (case map_of kvs k of None \<Rightarrow> dflt | Some v \<Rightarrow> v)"

definition dict_get :: "(string \<times> json) list \<Rightarrow> string \<Rightarrow> json" where
  "dict_get kvs k = dict_get_default kvs k JNull"

text \<open>Truth value of a Python object, as \<open>if x:\<close> and \<open>x or y\<close> test it.\<close>

fun truthy :: "json \<Rightarrow> bool" where
  "truthy JNull = False"
| "truthy (JBool b) = b"
| "truthy (JInt n) = (n \<noteq> 0)"
| "truthy (JStr s) = (s \<noteq> [])"
| "truthy (JArr xs) = (xs \<noteq> [])"
| "truthy (JObj kvs) = (kvs \<noteq> [])"

fun type_name :: "json \<Rightarrow> string" where
  "type_name JNull = ''NoneType''"
| "type_name (JBool b) = ''bool''"
| "type_name (JInt n) = ''int''"
| "type_name (JStr s) = ''str''"
| "type_name (JArr xs) = ''list''"
| "type_name (JObj kvs) = ''dict''"

definition quoted :: "string \<Rightarrow> string" where
  "quoted s = CHR 0x27 # s @ [CHR 0x27]"

text \<open>The text of the AttributeError raised by \<open>x.get(...)\<close> when \<open>x\<close> is not a dict.\<close>

definition no_attribute_get :: "json \<Rightarrow> string" where
  "no_attribute_get v = quoted (type_name v) @ '' object has no attribute '' @ quoted ''get''"

text \<open>
  \<open>x > 0\<close> and \<open>x - 1\<close> on a decoded value: defined on ints and bools (a bool is an
  int in Python), a TypeError (\<open>None\<close> here) on everything else.
\<close>

fun py_gt0 :: "json \<Rightarrow> bool option" where
  "py_gt0 (JInt n) = Some (0 < n)"
| "py_gt0 (JBool b) = Some b"
| "py_gt0 v = None"

fun py_dec :: "json \<Rightarrow> int option" where
  "py_dec (JInt n) = Some (n - 1)"
| "py_dec (JBool b) = Some (of_bool b - 1)"
| "py_dec v = None"

text \<open>Decimal text of an int, as \<open>str\<close> and f-strings give it.\<close>

function show_nat :: "nat \<Rightarrow> string" where
  "show_nat n =
     (if n < 10 then [''0123456789'' ! n] else show_nat (n div 10) @ [''0123456789'' ! (n mod 10)])"
  by pat_completeness auto
termination
  by (relation "measure id") auto

definition show_int :: "int \<Rightarrow> string" where
  "show_int i = (if i < 0 then CHR ''-'' # show_nat (nat (- i)) else show_nat (nat i))"

text \<open>
  \<open>str(x)\<close>, which an f-string applies to \<open>{x}\<close>. For a list or a dict it is the
  runtime's \<open>repr\<close>, whose escaping rules depend on Unicode tables: that one is taken
  as the parameter \<open>rp\<close>.
\<close>

fun py_str :: "(json \<Rightarrow> string) \<Rightarrow> json \<Rightarrow> string" where
  "py_str rp JNull = ''None''"
| "py_str rp (JBool b) = (if b then ''True'' else ''False'')"
| "py_str rp (JInt n) = show_int n"
| "py_str rp (JStr s) = s"
| "py_str rp v = rp v"

section \<open>Processes: the two output streams\<close>

text \<open>
  Standard output is the list of the frames written so far, each the JSON value that
  \<open>json.dumps\<close> rendered on one line. Standard error carries free text; the model keeps
  which diagnostic was written and the exception text it embeds. A write to either
  stream is taken to succeed: the stream is open and encodes the text.
\<close>

datatype diag =
    JsonDecodeDiag string
  | HandlerDiag string
  | NotifyDiag string
  | ThreadCrash string

record io =
  out :: "json list"
  err :: "diag list"

text \<open>
  A \<open>json.JSONDecodeError\<close>: its \<open>msg\<close> and the position it reports; \<open>str(e)\<close> is
  the text the exception's constructor formats from them.
\<close>

datatype decode_error = JSONDecodeError (msg: string) (lineno: nat) (colno: nat) (pos: nat)

definition str_decode_error :: "decode_error \<Rightarrow> string" where
  "str_decode_error e =
     msg e @ '': line '' @ show_nat (lineno e) @ '' column '' @ show_nat (colno e)
       @ '' (char '' @ show_nat (pos e) @ '')''"

text \<open>
  What \<open>json.loads\<close> does with a text: it returns the decoded value, raises
  \<open>json.JSONDecodeError\<close>, or raises another exception, whose text is kept (a
  \<open>RecursionError\<close> on a text nested too deep, a \<open>ValueError\<close> on an integer literal
  with too many digits).
\<close>

datatype loaded =
    Decoded json
  | DecodeError decode_error
  | OtherError string

text \<open>
  An input line that the text stream delivered, by what the backends compute from it.
  The timer backend decodes the line as it was read: \<open>raw\<close> is \<open>json.loads(line)\<close>. The
  other two backends strip the line first: \<open>stripped\<close> is \<open>None\<close> when \<open>line.strip()\<close>
  is empty and \<open>json.loads(line.strip())\<close> otherwise. The two can differ, since
  \<open>strip\<close> removes more kinds of white space than the decoder skips.
\<close>

record line =
  raw :: loaded
  stripped :: "loaded option"

text \<open>A line of JSON text without stray white space: both calls return its value.\<close>

definition Json :: "json \<Rightarrow> line" where
  "Json v = \<lparr>raw = Decoded v, stripped = Some (Decoded v)\<rparr>"

text \<open>The three envelopes of the wire protocol, as the \<open>send\<close> functions build them.\<close>

definition notification :: "string \<Rightarrow> json \<Rightarrow> json" where
  "notification method params =
     JObj [(''jsonrpc'', JStr ''2.0''), (''method'', JStr method),
           (''params'', if truthy params then params else JObj [])]"

definition response :: "json \<Rightarrow> json \<Rightarrow> json \<Rightarrow> json" where
  "response request_id result error =
     (if truthy error
      then JObj [(''jsonrpc'', JStr ''2.0''), (''id'', request_id), (''error'', error)]
      else JObj [(''jsonrpc'', JStr ''2.0''), (''id'', request_id), (''result'', result)])"


section \<open>The countdown timer backend (pomodoro/backend/server.py)\<close>

record pomodoro_timer =
  duration :: json
  remaining :: json
  is_running :: bool
  timer_thread :: "nat option"
  start_time :: "string option"

text \<open>
  A tick worker runs \<open>timer_loop\<close>. Between two of its steps it is either about to
  test the loop condition (\<open>Head\<close>) or inside \<open>time.sleep(1)\<close> (\<open>Sleeping\<close>); \<open>Done\<close>
  is a thread that has returned or died. The process state holds the timer object,
  every thread ever started (\<open>timer_thread\<close> is an index into that list), the two
  streams, and the local \<open>request_id\<close> of \<open>main\<close>, which survives from one loop
  iteration to the next (\<open>JNull\<close> while unbound or \<open>None\<close>).
\<close>

datatype pc = Head | Sleeping | Done

record backend = io +
  timer :: pomodoro_timer
  threads :: "pc list"
  request_id :: json

definition send :: "string \<Rightarrow> json \<Rightarrow> ('a io_scheme) \<Rightarrow> ('a io_scheme)" where
  "send method params s = s\<lparr>out := out s @ [notification method params]\<rparr>"

definition send_response :: "json \<Rightarrow> json \<Rightarrow> json \<Rightarrow> ('a io_scheme) \<Rightarrow> ('a io_scheme)" where
  "send_response rid result error s = s\<lparr>out := out s @ [response rid result error]\<rparr>"

definition init_timer :: pomodoro_timer where
  "init_timer = \<lparr>duration = JInt (25 * 60), remaining = JInt (25 * 60), is_running = False,
                 timer_thread = None, start_time = None\<rparr>"

text \<open>
  One step of the worker \<open>i\<close>. From \<open>Head\<close> it evaluates
  \<open>self.is_running and self.remaining > 0\<close> and either enters the sleep or leaves the
  loop. From \<open>Sleeping\<close> it runs the rest of the loop body: the decrement, the tick
  and, at zero, the completion; \<open>notify\<close> is what the desktop notification call did
  (\<open>Some e\<close>: it raised with text \<open>e\<close>).
\<close>

definition set_pc :: "nat \<Rightarrow> pc \<Rightarrow> backend \<Rightarrow> backend" where
  "set_pc i p s = s\<lparr>threads := (threads s)[i := p]\<rparr>"

definition tick_event :: "json \<Rightarrow> json \<Rightarrow> json" where
  "tick_event r tot =
     notification ''$event'' (JObj [(''type'', JStr ''tick''), (''remaining'', r), (''total'', tot)])"

definition complete_event :: json where
  "complete_event = notification ''$event'' (JObj [(''type'', JStr ''complete'')])"

definition loop_body :: "string option \<Rightarrow> nat \<Rightarrow> backend \<Rightarrow> backend" where
  "loop_body notify i s =
     (case py_dec (remaining (timer s)) of
        None \<Rightarrow> set_pc i Done (s\<lparr>err := err s @ [ThreadCrash ''TypeError'']\<rparr>)
      | Some r \<Rightarrow>
          let s1 = s\<lparr>timer := (timer s)\<lparr>remaining := JInt r\<rparr>\<rparr>;
              s2 = s1\<lparr>out := out s1 @ [tick_event (JInt r) (duration (timer s1))]\<rparr>;
              s3 = (if r \<le> 0
                    then let s4 = s2\<lparr>timer := (timer s2)\<lparr>is_running := False\<rparr>\<rparr>;
                             s5 = s4\<lparr>out := out s4 @ [complete_event]\<rparr>
                         in (case notify of None \<Rightarrow> s5
                             | Some e \<Rightarrow> s5\<lparr>err := err s5 @ [NotifyDiag e]\<rparr>)
                    else s2)
          in set_pc i Head s3)"

definition timer_loop :: "string option \<Rightarrow> nat \<Rightarrow> backend \<Rightarrow> backend" where
  "timer_loop notify i s =
     (if i < length (threads s) then
        (case threads s ! i of
           Done \<Rightarrow> s
         | Head \<Rightarrow>
             (if \<not> is_running (timer s) then set_pc i Done s
              else (case py_gt0 (remaining (timer s)) of
                      None \<Rightarrow> set_pc i Done (s\<lparr>err := err s @ [ThreadCrash ''TypeError'']\<rparr>)
                    | Some True \<Rightarrow> set_pc i Sleeping s
                    | Some False \<Rightarrow> set_pc i Done s))
         | Sleeping \<Rightarrow> loop_body notify i s)
      else s)"

text \<open>
  The four methods. \<open>now\<close> is the text of \<open>datetime.now()\<close> at the call. Each returns
  the new state and the result dict.
\<close>

definition already_running :: json where
  "already_running = JObj [(''success'', JBool False), (''error'', JStr ''Timer already running'')]"

definition start_timer :: "string \<Rightarrow> json \<Rightarrow> backend \<Rightarrow> backend \<times> json" where
  "start_timer now d s =
     (if is_running (timer s) then (s, already_running)
      else
        let t = timer s;
            t1 = (if truthy d then t\<lparr>duration := d, remaining := d\<rparr>
                  else t\<lparr>remaining := duration t\<rparr>);
            t2 = t1\<lparr>is_running := True, start_time := Some now,
                    timer_thread := Some (length (threads s))\<rparr>
        in (s\<lparr>timer := t2, threads := threads s @ [Head]\<rparr>,
            JObj [(''success'', JBool True), (''remaining'', remaining t2)]))"

definition pause_timer :: "backend \<Rightarrow> backend \<times> json" where
  "pause_timer s =
     (if \<not> is_running (timer s)
      then (s, JObj [(''success'', JBool False), (''error'', JStr ''Timer not running'')])
      else (s\<lparr>timer := (timer s)\<lparr>is_running := False\<rparr>\<rparr>,
            JObj [(''success'', JBool True), (''remaining'', remaining (timer s))]))"

definition reset_timer :: "backend \<Rightarrow> backend \<times> json" where
  "reset_timer s =
     (let t = (timer s)\<lparr>is_running := False, remaining := duration (timer s), start_time := None\<rparr>;
          s1 = s\<lparr>timer := t\<rparr>;
          s2 = send ''$event'' (JObj [(''type'', JStr ''reset''), (''remaining'', remaining t)]) s1
      in (s2, JObj [(''success'', JBool True), (''remaining'', remaining t)]))"

definition get_status :: "backend \<Rightarrow> backend \<times> json" where
  "get_status s =
     (s, JObj [(''isRunning'', JBool (is_running (timer s))),
               (''remaining'', remaining (timer s)),
               (''duration'', duration (timer s)),
               (''startTime'', case start_time (timer s) of None \<Rightarrow> JNull | Some t \<Rightarrow> JStr t)])"

text \<open>
  The body of the \<open>try\<close> in \<open>main\<close> after the three \<open>request.get\<close> calls: the method
  dispatch. \<open>Inl e\<close> is an exception with text \<open>e\<close>; \<open>Inr (s', result, error)\<close> is the
  state and the two locals after the chain.
\<close>

definition method_not_found :: "(json \<Rightarrow> string) \<Rightarrow> json \<Rightarrow> json" where
  "method_not_found rp method =
     JObj [(''code'', JInt (- 32601)), (''message'', JStr (''Method not found: '' @ py_str rp method))]"

definition dispatch :: "(json \<Rightarrow> string) \<Rightarrow> string \<Rightarrow> json \<Rightarrow> json \<Rightarrow> backend
                          \<Rightarrow> string + (backend \<times> json \<times> json)" where
  "dispatch rp now method params s =
     (if method = JStr ''start'' then
        (case params of
           JObj kvs \<Rightarrow> (let (s', r) = start_timer now (dict_get kvs ''duration'') s in Inr (s', r, JNull))
         | _ \<Rightarrow> Inl (no_attribute_get params))
      else if method = JStr ''pause'' then (let (s', r) = pause_timer s in Inr (s', r, JNull))
      else if method = JStr ''reset'' then (let (s', r) = reset_timer s in Inr (s', r, JNull))
      else if method = JStr ''getStatus'' then (let (s', r) = get_status s in Inr (s', r, JNull))
      else Inr (s, JNull, method_not_found rp method))"

text \<open>The \<open>except Exception\<close> clause of \<open>main\<close>.\<close>

definition internal_error :: "string \<Rightarrow> backend \<Rightarrow> backend" where
  "internal_error e s =
     (let s1 = s\<lparr>err := err s @ [HandlerDiag e]\<rparr>
      in if request_id s1 \<noteq> JNull
         then send_response (request_id s1) JNull
                (JObj [(''code'', JInt (- 32603)), (''message'', JStr (''Internal error: '' @ e))]) s1
         else s1)"

text \<open>
  One iteration of the read loop of \<open>main\<close> on a line that was read. A decode error has
  its own handler; every other exception of the \<open>try\<close> body, one raised by
  \<open>json.loads\<close> included, reaches the \<open>except Exception\<close> clause.
\<close>

definition pomodoro_main :: "(json \<Rightarrow> string) \<Rightarrow> string \<Rightarrow> line \<Rightarrow> backend \<Rightarrow> backend" where
  "pomodoro_main rp now l s =
     (case raw l of
        DecodeError e \<Rightarrow> s\<lparr>err := err s @ [JsonDecodeDiag (str_decode_error e)]\<rparr>
      | OtherError e \<Rightarrow> internal_error e s
      | Decoded request \<Rightarrow>
          (case request of
             JObj kvs \<Rightarrow>
               (let method = dict_get kvs ''method'';
                    params = dict_get_default kvs ''params'' (JObj []);
                    s1 = s\<lparr>request_id := dict_get kvs ''id''\<rparr>
                in (case dispatch rp now method params s1 of
                      Inl e \<Rightarrow> internal_error e s1
                    | Inr (s2, result, error) \<Rightarrow>
                        if request_id s2 \<noteq> JNull
                        then send_response (request_id s2) result error s2
                        else s2))
           | _ \<Rightarrow> internal_error (no_attribute_get request) s))"

text \<open>
  The backend runs the read loop and the tick workers concurrently. An execution is a
  sequence of events: the read loop handles the next line, or a worker takes its next
  step. A line is handled in one step: a worker's emissions are one sleep period apart
  and the handling of a line takes no such time.
\<close>

datatype event =
    Line string line
  | Tick nat "string option"

fun step :: "(json \<Rightarrow> string) \<Rightarrow> event \<Rightarrow> backend \<Rightarrow> backend" where
  "step rp (Line now l) s = pomodoro_main rp now l s"
| "step rp (Tick i notify) s = timer_loop notify i s"

definition run :: "(json \<Rightarrow> string) \<Rightarrow> event list \<Rightarrow> backend \<Rightarrow> backend" where
  "run rp evs s = fold (step rp) evs s"

definition ready_event :: json where
  "ready_event =
     notification ''$ready''
       (JObj [(''version'', JStr ''1.0.0''),
              (''methods'', JArr [JStr ''start'', JStr ''pause'', JStr ''reset'', JStr ''getStatus''])])"

text \<open>The state in which \<open>main\<close> enters the read loop.\<close>

definition init_backend :: backend where
  "init_backend = \<lparr>out = [ready_event], err = [], timer = init_timer, threads = [], request_id = JNull\<rparr>"

section \<open>The inspection-service backend (uiautodev/backend/main.py)\<close>

text \<open>
  The backend supervises one external process. What it does to the outside world is
  recorded, in order, as a list of effects; what the outside world answers is given
  with each call as a \<open>world\<close>: whether the port accepts a connection, whether the
  cache directory and the child can be created (\<open>Inl e\<close>: an exception with text \<open>e\<close>,
  \<open>Inr pid\<close>: the child), the probes that fit in the readiness timeout (port open,
  \<open>/api/info\<close> answers 200), and whether \<open>terminate\<close>, \<open>wait\<close> and \<open>kill\<close> return or
  raise. The child's own output, relayed by two reader threads, is left out.
\<close>

datatype effect =
    ProbePort
  | ProbeInfo
  | Spawn nat
  | Terminate nat
  | Wait nat
  | Kill nat
  | ShutdownCall

datatype wait_outcome = Exited | TimeoutExpired | WaitError string

record world =
  port_in_use :: bool
  spawn :: "string + nat"
  probes :: "(bool \<times> bool) list"
  terminate_raises :: "string option"
  wait_outcome :: wait_outcome
  kill_raises :: "string option"

record inspector = io +
  server_process :: "nat option"
  effects :: "effect list"

definition UIAUTODEV_URL :: string where
  "UIAUTODEV_URL = ''http://127.0.0.1:20242''"

definition emit :: "string \<Rightarrow> json \<Rightarrow> ('a io_scheme) \<Rightarrow> ('a io_scheme)" where
  "emit event data s =
     s\<lparr>out := out s @ [JObj [(''jsonrpc'', JStr ''2.0''), (''method'', JStr ''$event''),
                              (''params'', JObj [(''event'', JStr event), (''data'', data)])]]\<rparr>"

definition log :: "string \<Rightarrow> string \<Rightarrow> ('a io_scheme) \<Rightarrow> ('a io_scheme)" where
  "log level message s = emit ''log'' (JObj [(''level'', JStr level), (''message'', JStr message)]) s"

definition perform :: "effect \<Rightarrow> inspector \<Rightarrow> inspector" where
  "perform e s = s\<lparr>effects := effects s @ [e]\<rparr>"

definition log_already_running :: string where
  "log_already_running = ''uiautodev '' @ [CHR 0xE6, CHR 0x9C, CHR 0x8D, CHR 0xE5, CHR 0x8A, CHR 0xA1, CHR 0xE5, CHR 0xB7, CHR 0xB2, CHR 0xE5, CHR 0x9C, CHR 0xA8, CHR 0xE8, CHR 0xBF, CHR 0x90, CHR 0xE8, CHR 0xA1, CHR 0x8C]"

definition log_starting :: string where
  "log_starting = [CHR 0xE6, CHR 0xAD, CHR 0xA3, CHR 0xE5, CHR 0x9C, CHR 0xA8, CHR 0xE5, CHR 0x90, CHR 0xAF, CHR 0xE5, CHR 0x8A, CHR 0xA8] @ '' uiautodev '' @ [CHR 0xE6, CHR 0x9C, CHR 0x8D, CHR 0xE5, CHR 0x8A, CHR 0xA1, CHR 0xEF, CHR 0xBC, CHR 0x88, CHR 0xE6, CHR 0x9C, CHR 0xAC, CHR 0xE5, CHR 0x9C, CHR 0xB0, CHR 0xE6, CHR 0xBA, CHR 0x90, CHR 0xE4, CHR 0xBB, CHR 0xA3, CHR 0xE7, CHR 0xA0, CHR 0x81, CHR 0xEF, CHR 0xBC, CHR 0x89] @ ''...''"

definition log_started :: string where
  "log_started = ''uiautodev '' @ [CHR 0xE6, CHR 0x9C, CHR 0x8D, CHR 0xE5, CHR 0x8A, CHR 0xA1, CHR 0xE5, CHR 0xB7, CHR 0xB2, CHR 0xE5, CHR 0x90, CHR 0xAF, CHR 0xE5, CHR 0x8A, CHR 0xA8] @ '': '' @ UIAUTODEV_URL"

definition log_timeout :: string where
  "log_timeout = ''uiautodev '' @ [CHR 0xE6, CHR 0x9C, CHR 0x8D, CHR 0xE5, CHR 0x8A, CHR 0xA1, CHR 0xE5, CHR 0x90, CHR 0xAF, CHR 0xE5, CHR 0x8A, CHR 0xA8, CHR 0xE8, CHR 0xB6, CHR 0x85, CHR 0xE6, CHR 0x97, CHR 0xB6]"

definition log_failed :: "string \<Rightarrow> string" where
  "log_failed e = [CHR 0xE5, CHR 0x90, CHR 0xAF, CHR 0xE5, CHR 0x8A, CHR 0xA8] @ '' uiautodev '' @ [CHR 0xE6, CHR 0x9C, CHR 0x8D, CHR 0xE5, CHR 0x8A, CHR 0xA1, CHR 0xE5, CHR 0xA4, CHR 0xB1, CHR 0xE8, CHR 0xB4, CHR 0xA5] @ '': '' @ e"

text \<open>
  \<open>wait_for_server\<close>: one round per probe that starts before the timeout; a round
  that finds the port open also asks \<open>/api/info\<close>.
\<close>

fun wait_for_server :: "(bool \<times> bool) list \<Rightarrow> inspector \<Rightarrow> inspector \<times> bool" where
  "wait_for_server [] s = (s, False)"
| "wait_for_server ((port, info) # ps) s =
     (if port then
        (if info then (perform ProbeInfo (perform ProbePort s), True)
         else wait_for_server ps (perform ProbeInfo (perform ProbePort s)))
      else wait_for_server ps (perform ProbePort s))"

definition start_uiautodev_server :: "world \<Rightarrow> inspector \<Rightarrow> inspector \<times> bool" where
  "start_uiautodev_server w s =
     (let s1 = perform ProbePort s in
      if port_in_use w then (log ''info'' log_already_running s1, True)
      else
        let s2 = log ''info'' log_starting s1 in
        (case spawn w of
           Inl e \<Rightarrow> (log ''error'' (log_failed e) s2, False)
         | Inr pid \<Rightarrow>
             let s3 = perform (Spawn pid) (s2\<lparr>server_process := Some pid\<rparr>);
                 (s4, ready) = wait_for_server (probes w) s3
             in if ready then (log ''info'' log_started s4, True)
                else (log ''error'' log_timeout s4, False)))"

text \<open>
  \<open>stop_uiautodev_server\<close> returns \<open>None\<close> after a normal return and \<open>Some e\<close> when an
  exception with text \<open>e\<close> leaves the function. The answer of the shutdown request,
  an exception included, is discarded by the source.
\<close>

definition shutdown_request :: "inspector \<Rightarrow> inspector \<times> string option" where
  "shutdown_request s = (perform ShutdownCall s, None)"

definition stop_uiautodev_server :: "world \<Rightarrow> inspector \<Rightarrow> inspector \<times> string option" where
  "stop_uiautodev_server w s =
     (case server_process s of
        None \<Rightarrow> shutdown_request s
      | Some pid \<Rightarrow>
          let s1 = perform (Terminate pid) s in
          (case terminate_raises w of
             Some e \<Rightarrow> shutdown_request (s1\<lparr>server_process := None\<rparr>)
           | None \<Rightarrow>
               let s2 = perform (Wait pid) s1 in
               (case wait_outcome w of
                  Exited \<Rightarrow> shutdown_request (s2\<lparr>server_process := None\<rparr>)
                | WaitError e \<Rightarrow> shutdown_request (s2\<lparr>server_process := None\<rparr>)
                | TimeoutExpired \<Rightarrow>
                    let s3 = perform (Kill pid) s2 in
                    (case kill_raises w of
                       None \<Rightarrow> shutdown_request (s3\<lparr>server_process := None\<rparr>)
                     | Some e \<Rightarrow> (s3, Some e)))))"

text \<open>
  \<open>handle_request\<close> on a dict: the state afterwards, and the response dict (\<open>Inr\<close>) or
  the exception that left the function (\<open>Inl\<close>).
\<close>

definition handle_request :: "(json \<Rightarrow> string) \<Rightarrow> world \<Rightarrow> (string \<times> json) list \<Rightarrow> inspector
                                \<Rightarrow> inspector \<times> (string + json)" where
  "handle_request rp w request s =
     (let method = dict_get_default request ''method'' (JStr []) in
      if method = JStr ''getServerUrl'' then
        (s, Inr (JObj [(''result'', JObj [(''url'', JStr UIAUTODEV_URL)])]))
      else if method = JStr ''getServerStatus'' then
        (perform ProbePort s,
         Inr (JObj [(''result'', JObj [(''running'', JBool (port_in_use w)),
                                       (''url'', if port_in_use w then JStr UIAUTODEV_URL else JNull)])]))
      else if method = JStr ''restartServer'' then
        (case stop_uiautodev_server w s of
           (s1, Some e) \<Rightarrow> (s1, Inl e)
         | (s1, None) \<Rightarrow>
             let (s2, success) = start_uiautodev_server w s1
             in (s2, Inr (JObj [(''result'', JObj [(''success'', JBool success),
                                                    (''url'', if success then JStr UIAUTODEV_URL else JNull)])])))
      else if method = JStr ''shutdown'' then
        (case stop_uiautodev_server w s of
           (s1, Some e) \<Rightarrow> (s1, Inl e)
         | (s1, None) \<Rightarrow> (s1, Inr (JObj [(''result'', JObj [(''success'', JBool True)])])))
      else (s, Inr (JObj [(''error'', method_not_found rp method)])))"

text \<open>
  One iteration of the \<open>for line in sys.stdin\<close> loop of \<open>main\<close>. Nothing in the loop
  catches an exception other than the decode error: \<open>Some e\<close> is the exception that
  ends \<open>main\<close>, be it raised by \<open>json.loads\<close>, by \<open>request.get\<close> or by the handler.
\<close>

definition write_response :: "json \<Rightarrow> json \<Rightarrow> inspector \<Rightarrow> inspector" where
  "write_response rid resp s =
     (case resp of
        JObj r \<Rightarrow>
          (if map_of r ''result'' \<noteq> None then send_response rid (dict_get r ''result'') JNull s
           else if map_of r ''error'' \<noteq> None then send_response rid JNull (dict_get r ''error'') s
           else s)
      | _ \<Rightarrow> s)"

definition uiautodev_main :: "(json \<Rightarrow> string) \<Rightarrow> world \<Rightarrow> line \<Rightarrow> inspector \<Rightarrow> inspector \<times> string option" where
  "uiautodev_main rp w l s =
     (case stripped l of
        None \<Rightarrow> (s, None)
      | Some (DecodeError e) \<Rightarrow> (s, None)
      | Some (OtherError e) \<Rightarrow> (s, Some e)
      | Some (Decoded request) \<Rightarrow>
          (case request of
             JObj kvs \<Rightarrow>
               (let rid = dict_get kvs ''id'' in
                case handle_request rp w kvs s of
                  (s1, Inl e) \<Rightarrow> (s1, Some e)
                | (s1, Inr resp) \<Rightarrow>
                    (if rid \<noteq> JNull then write_response rid resp s1 else s1, None))
           | _ \<Rightarrow> (s, Some (no_attribute_get request))))"

text \<open>
  What \<open>main\<close> does before the loop, from the state of the fresh process: it starts the
  service, announces its methods and reports whether the service came up.
\<close>

definition send_ready :: "string list \<Rightarrow> ('a io_scheme) \<Rightarrow> ('a io_scheme)" where
  "send_ready methods s =
     s\<lparr>out := out s @ [JObj [(''jsonrpc'', JStr ''2.0''), (''method'', JStr ''$ready''),
                              (''params'', JObj [(''methods'', JArr (map JStr methods))])]]\<rparr>"

definition init_inspector :: inspector where
  "init_inspector = \<lparr>out = [], err = [], server_process = None, effects = []\<rparr>"

definition uiautodev_startup :: "world \<Rightarrow> inspector" where
  "uiautodev_startup w =
     (let (s1, server_started) = start_uiautodev_server w init_inspector;
          s2 = send_ready [''getServerUrl'', ''getServerStatus'', ''restartServer'', ''shutdown''] s1
      in emit ''serverReady''
           (JObj [(''success'', JBool server_started),
                  (''url'', if server_started then JStr UIAUTODEV_URL else JNull)]) s2)"

section \<open>The system-monitor backend (backend-demo/backend/server.py)\<close>

text \<open>
  A sampling worker runs \<open>monitor_loop\<close>: it is about to test the flag (\<open>MHead\<close>),
  has passed the test and is collecting the sample (\<open>MSampling\<close>), has sent it and
  sleeps (\<open>MSleeping\<close>), or has returned (\<open>MDone\<close>). The telemetry itself comes from
  outside: each function below that needs one takes the value the collector returns.
\<close>

datatype mpc = MHead | MSampling | MSleeping | MDone

record monitor = io +
  monitoring :: bool
  monitor_thread :: "nat option"
  samplers :: "mpc list"

definition msg_monitor_running :: string where
  "msg_monitor_running = [CHR 0xE7, CHR 0x9B, CHR 0x91, CHR 0xE6, CHR 0x8E, CHR 0xA7, CHR 0xE5, CHR 0xB7, CHR 0xB2, CHR 0xE5, CHR 0x9C, CHR 0xA8, CHR 0xE8, CHR 0xBF, CHR 0x90, CHR 0xE8, CHR 0xA1, CHR 0x8C]"

definition msg_monitor_started :: string where
  "msg_monitor_started = [CHR 0xE5, CHR 0xAE, CHR 0x9E, CHR 0xE6, CHR 0x97, CHR 0xB6, CHR 0xE7, CHR 0x9B, CHR 0x91, CHR 0xE6, CHR 0x8E, CHR 0xA7, CHR 0xE5, CHR 0xB7, CHR 0xB2, CHR 0xE5, CHR 0x90, CHR 0xAF, CHR 0xE5, CHR 0x8A, CHR 0xA8]"

definition msg_monitor_not_running :: string where
  "msg_monitor_not_running = [CHR 0xE7, CHR 0x9B, CHR 0x91, CHR 0xE6, CHR 0x8E, CHR 0xA7, CHR 0xE6, CHR 0x9C, CHR 0xAA, CHR 0xE8, CHR 0xBF, CHR 0x90, CHR 0xE8, CHR 0xA1, CHR 0x8C]"

definition msg_monitor_stopped :: string where
  "msg_monitor_stopped = [CHR 0xE5, CHR 0xAE, CHR 0x9E, CHR 0xE6, CHR 0x97, CHR 0xB6, CHR 0xE7, CHR 0x9B, CHR 0x91, CHR 0xE6, CHR 0x8E, CHR 0xA7, CHR 0xE5, CHR 0xB7, CHR 0xB2, CHR 0xE5, CHR 0x81, CHR 0x9C, CHR 0xE6, CHR 0xAD, CHR 0xA2]"

definition msg_json_failed :: "string \<Rightarrow> string" where
  "msg_json_failed e = ''JSON '' @ [CHR 0xE8, CHR 0xA7, CHR 0xA3, CHR 0xE6, CHR 0x9E, CHR 0x90, CHR 0xE5, CHR 0xA4, CHR 0xB1, CHR 0xE8, CHR 0xB4, CHR 0xA5] @ '': '' @ e"

definition msg_command_failed :: "string \<Rightarrow> string" where
  "msg_command_failed e = [CHR 0xE5, CHR 0x91, CHR 0xBD, CHR 0xE4, CHR 0xBB, CHR 0xA4, CHR 0xE5, CHR 0xA4, CHR 0x84, CHR 0xE7, CHR 0x90, CHR 0x86, CHR 0xE9, CHR 0x94, CHR 0x99, CHR 0xE8, CHR 0xAF, CHR 0xAF] @ '': '' @ e"

definition message :: "string \<Rightarrow> json" where
  "message m = JObj [(''message'', JStr m)]"

definition set_mpc :: "nat \<Rightarrow> mpc \<Rightarrow> monitor \<Rightarrow> monitor" where
  "set_mpc i p s = s\<lparr>samplers := (samplers s)[i := p]\<rparr>"

text \<open>
  One step of the sampling worker \<open>i\<close>; \<open>sample\<close> is the dict it assembles. The
  collectors catch their own failures, so the \<open>except\<close> branch of the loop is not
  reached.
\<close>

definition monitor_loop :: "json \<Rightarrow> nat \<Rightarrow> monitor \<Rightarrow> monitor" where
  "monitor_loop sample i s =
     (if i < length (samplers s) then
        (case samplers s ! i of
           MDone \<Rightarrow> s
         | MHead \<Rightarrow> (if monitoring s then set_mpc i MSampling s else set_mpc i MDone s)
         | MSampling \<Rightarrow> set_mpc i MSleeping (send ''monitor_data'' (JObj [(''data'', sample)]) s)
         | MSleeping \<Rightarrow> set_mpc i MHead s)
      else s)"

definition start_monitor :: "monitor \<Rightarrow> monitor" where
  "start_monitor s =
     (if monitoring s then send ''info'' (message msg_monitor_running) s
      else
        send ''monitor_started'' (message msg_monitor_started)
          (s\<lparr>monitoring := True, monitor_thread := Some (length (samplers s)),
             samplers := samplers s @ [MHead]\<rparr>))"

text \<open>
  \<open>thread.join(timeout=2)\<close>, called with the flag already cleared: the joined worker
  finishes the round it is in (a sample of a few tenths of a second and a sleep of one
  second, within the timeout) and returns.
\<close>

definition join :: "json \<Rightarrow> nat \<Rightarrow> monitor \<Rightarrow> monitor" where
  "join sample i s =
     (if i < length (samplers s) then
        (case samplers s ! i of
           MSampling \<Rightarrow> set_mpc i MDone (send ''monitor_data'' (JObj [(''data'', sample)]) s)
         | _ \<Rightarrow> set_mpc i MDone s)
      else s)"

definition stop_monitor :: "json \<Rightarrow> monitor \<Rightarrow> monitor" where
  "stop_monitor sample s =
     (if \<not> monitoring s then send ''info'' (message msg_monitor_not_running) s
      else
        let s1 = s\<lparr>monitoring := False\<rparr>;
            s2 = (case monitor_thread s1 of None \<Rightarrow> s1 | Some i \<Rightarrow> join sample i s1)
        in send ''monitor_stopped'' (message msg_monitor_stopped) s2)"

text \<open>
  \<open>handle_command\<close>; \<open>info\<close> is what the collector named by the command returns.
  \<open>Inl e\<close>: the AttributeError of \<open>payload.get\<close> on a value that is not a dict.
\<close>

definition handle_command :: "json \<Rightarrow> json \<Rightarrow> json \<Rightarrow> monitor \<Rightarrow> string + monitor" where
  "handle_command info sample payload s =
     (case payload of
        JObj kvs \<Rightarrow>
          (let command = dict_get kvs ''command'' in
           if command = JStr ''get_system_info'' then Inr (send ''system_info'' (JObj [(''data'', info)]) s)
           else if command = JStr ''get_cpu_info'' then Inr (send ''cpu_info'' (JObj [(''data'', info)]) s)
           else if command = JStr ''get_memory_info'' then Inr (send ''memory_info'' (JObj [(''data'', info)]) s)
           else if command = JStr ''get_disk_info'' then Inr (send ''disk_info'' (JObj [(''data'', info)]) s)
           else if command = JStr ''get_network_info'' then Inr (send ''network_info'' (JObj [(''data'', info)]) s)
           else if command = JStr ''get_processes'' then Inr (send ''processes'' (JObj [(''data'', info)]) s)
           else if command = JStr ''start_monitor'' then Inr (start_monitor s)
           else if command = JStr ''stop_monitor'' then Inr (stop_monitor sample s)
           else Inr (send ''unknown_command'' (JObj [(''command'', command)]) s))
      | _ \<Rightarrow> Inl (no_attribute_get payload))"

text \<open>
  One iteration of the \<open>for line in sys.stdin\<close> loop of \<open>main\<close>. The decode error and
  the exceptions of \<open>handle_command\<close> are caught; an exception of another class raised
  by \<open>json.loads\<close> is not: \<open>Some e\<close> is the exception that ends \<open>main\<close>.
\<close>

definition monitor_main :: "json \<Rightarrow> json \<Rightarrow> line \<Rightarrow> monitor \<Rightarrow> monitor \<times> string option" where
  "monitor_main info sample l s =
     (case stripped l of
        None \<Rightarrow> (s, None)
      | Some (DecodeError e) \<Rightarrow> (send ''error'' (message (msg_json_failed (msg e))) s, None)
      | Some (OtherError e) \<Rightarrow> (s, Some e)
      | Some (Decoded payload) \<Rightarrow>
          (case handle_command info sample payload s of
             Inl e \<Rightarrow> (send ''error'' (message (msg_command_failed e)) s, None)
           | Inr s' \<Rightarrow> (s', None)))"

text \<open>The state in which \<open>main\<close> enters the loop.\<close>

definition msg_backend_ready :: string where
  "msg_backend_ready = [CHR 0xE7, CHR 0xB3, CHR 0xBB, CHR 0xE7, CHR 0xBB, CHR 0x9F, CHR 0xE7, CHR 0x9B, CHR 0x91, CHR 0xE6, CHR 0x8E, CHR 0xA7, CHR 0xE5, CHR 0x90, CHR 0x8E, CHR 0xE7, CHR 0xAB, CHR 0xAF, CHR 0xE5, CHR 0xB7, CHR 0xB2, CHR 0xE5, CHR 0x90, CHR 0xAF, CHR 0xE5, CHR 0x8A, CHR 0xA8]"

definition init_monitor :: monitor where
  "init_monitor = \<lparr>out = [notification ''backend_ready'' (message msg_backend_ready)], err = [],
                   monitoring = False, monitor_thread = None, samplers = []\<rparr>"

section \<open>Concrete inputs and auxiliary notions\<close>

text \<open>
  The inputs at which the theorems below are instantiated, and the notions their
  statements and proofs use.
\<close>

definition repr0 :: "json \<Rightarrow> string" where
  "repr0 v = ''[...]''"

definition start_request :: json where
  "start_request = JObj [(''jsonrpc'', JStr ''2.0''), (''id'', JInt 1), (''method'', JStr ''start''),
                         (''params'', JObj [(''duration'', JInt 5)])]"

definition started :: backend where
  "started = pomodoro_main repr0 ''2025-01-01T09:00:00'' (Json start_request) init_backend"

definition sampling :: monitor where
  "sampling = start_monitor init_monitor"

text \<open>
  The inspection backend after a startup in which the port was free, the child 4711 was
  created and the second readiness probe succeeded.
\<close>

definition cold_world :: world where
  "cold_world = \<lparr>port_in_use = False, spawn = Inr 4711, probes = [(False, False), (True, True)],
                 terminate_raises = None, wait_outcome = Exited, kill_raises = None\<rparr>"

definition owning :: inspector where
  "owning = uiautodev_startup cold_world"

definition quiet_world :: world where
  "quiet_world = \<lparr>port_in_use = True, spawn = Inr 4712, probes = [(True, True)],
                  terminate_raises = None, wait_outcome = Exited, kill_raises = None\<rparr>"

definition bogus_request :: "(string \<times> json) list" where
  "bogus_request = [(''id'', JInt 7), (''method'', JStr ''bogus'')]"


text \<open>The six frames of Scenario A that follow the response.\<close>

definition countdown_frames :: "json list" where
  "countdown_frames =
     [JObj [(''jsonrpc'', JStr ''2.0''), (''method'', JStr ''$event''),
            (''params'', JObj [(''type'', JStr ''tick''), (''remaining'', JInt 4),
                               (''total'', JInt 5)])],
      JObj [(''jsonrpc'', JStr ''2.0''), (''method'', JStr ''$event''),
            (''params'', JObj [(''type'', JStr ''tick''), (''remaining'', JInt 3),
                               (''total'', JInt 5)])],
      JObj [(''jsonrpc'', JStr ''2.0''), (''method'', JStr ''$event''),
            (''params'', JObj [(''type'', JStr ''tick''), (''remaining'', JInt 2),
                               (''total'', JInt 5)])],
      JObj [(''jsonrpc'', JStr ''2.0''), (''method'', JStr ''$event''),
            (''params'', JObj [(''type'', JStr ''tick''), (''remaining'', JInt 1),
                               (''total'', JInt 5)])],
      JObj [(''jsonrpc'', JStr ''2.0''), (''method'', JStr ''$event''),
            (''params'', JObj [(''type'', JStr ''tick''), (''remaining'', JInt 0),
                               (''total'', JInt 5)])],
      JObj [(''jsonrpc'', JStr ''2.0''), (''method'', JStr ''$event''),
            (''params'', JObj [(''type'', JStr ''complete'')])]]"

text \<open>
  The states of a countdown from 5 in which worker \<open>n\<close> is the only live thread, stands
  at \<open>p\<close> and has made \<open>j\<close> decrements: the frames written after \<open>base\<close> are the first
  \<open>j\<close> ticks, and the completion once \<open>j\<close> is 5.
\<close>

definition counting :: "json list \<Rightarrow> nat \<Rightarrow> nat \<Rightarrow> pc \<Rightarrow> backend \<Rightarrow> bool" where
  "counting base n j p s \<longleftrightarrow>
     length (threads s) = Suc n \<and> (\<forall>i<n. threads s ! i = Done) \<and> threads s ! n = p \<and> j \<le> 5
     \<and> duration (timer s) = JInt 5 \<and> remaining (timer s) = JInt (5 - int j)
     \<and> (p = Head \<and> is_running (timer s) = (j < 5)
        \<or> p = Sleeping \<and> j < 5 \<and> is_running (timer s)
        \<or> p = Done \<and> j = 5 \<and> \<not> is_running (timer s))
     \<and> out s = base @ take (if j = 5 then 6 else j) countdown_frames"

text \<open>The children created so far, in order.\<close>

fun spawned :: "effect list \<Rightarrow> nat list" where
  "spawned [] = []"
| "spawned (Spawn pid # es) = pid # spawned es"
| "spawned (e # es) = spawned es"

definition stubborn_world :: world where
  "stubborn_world = \<lparr>port_in_use = False, spawn = Inr 4712, probes = [],
                     terminate_raises = None, wait_outcome = TimeoutExpired,
                     kill_raises = Some ''[Errno 1] Operation not permitted''\<rparr>"

definition start_req :: "int \<Rightarrow> int \<Rightarrow> json" where
  "start_req i d = JObj [(''jsonrpc'', JStr ''2.0''), (''id'', JInt i), (''method'', JStr ''start''),
                        (''params'', JObj [(''duration'', JInt d)])]"

definition pause_req :: "int \<Rightarrow> json" where
  "pause_req i = JObj [(''jsonrpc'', JStr ''2.0''), (''id'', JInt i), (''method'', JStr ''pause'')]"

definition pause_request :: json where
  "pause_request = JObj [(''jsonrpc'', JStr ''2.0''), (''id'', JInt 2), (''method'', JStr ''pause'')]"

definition restart_request :: json where
  "restart_request = JObj [(''jsonrpc'', JStr ''2.0''), (''id'', JInt 3), (''method'', JStr ''start''),
                           (''params'', JObj [(''duration'', JInt 2)])]"

text \<open>
  The line \<open>not json\<close>, which \<open>json.loads\<close> rejects at its first character, and a line
  of brackets nested deeper than the interpreter's recursion limit.
\<close>

definition not_json :: line where
  "not_json = \<lparr>raw = DecodeError (JSONDecodeError ''Expecting value'' 1 1 0),
                stripped = Some (DecodeError (JSONDecodeError ''Expecting value'' 1 1 0))\<rparr>"

definition too_deep :: line where
  "too_deep = \<lparr>raw = OtherError ''maximum recursion depth exceeded while decoding a JSON array from a unicode string'',
                stripped = Some (OtherError ''maximum recursion depth exceeded while decoding a JSON array from a unicode string'')\<rparr>"

text \<open>The empty line, a line feed alone.\<close>

definition blank_line :: line where
  "blank_line = \<lparr>raw = DecodeError (JSONDecodeError ''Expecting value'' 2 1 1), stripped = None\<rparr>"

section \<open>Lines that decode\<close>

text \<open>
  A loop iteration depends on the line only through what its own decode call returns, so
  what is proved below of \<open>Json v\<close> holds of every line that decodes to \<open>v\<close>.
\<close>

lemma pomodoro_main_decoded:
  "raw l = Decoded v \<Longrightarrow> pomodoro_main rp now l s = pomodoro_main rp now (Json v) s"
  by (simp add: pomodoro_main_def Json_def)

lemma uiautodev_main_decoded:
  "stripped l = Some (Decoded v) \<Longrightarrow> uiautodev_main rp w l u = uiautodev_main rp w (Json v) u"
  by (simp add: uiautodev_main_def Json_def)

lemma monitor_main_decoded:
  "stripped l = Some (Decoded v) \<Longrightarrow>
   monitor_main info sample l m = monitor_main info sample (Json v) m"
  by (simp add: monitor_main_def Json_def)

section \<open>Redundant start\<close>

lemma start_timer_running: "is_running (timer s) \<Longrightarrow> start_timer now d s = (s, already_running)"
  by (simp add: start_timer_def)

lemma main_start_running:
  assumes "is_running (timer s)"
    and "dict_get kvs ''method'' = JStr ''start''"
    and "dict_get_default kvs ''params'' (JObj []) = JObj ps"
    and "dict_get kvs ''id'' \<noteq> JNull"
  shows "pomodoro_main rp now (Json (JObj kvs)) s =
           s\<lparr>request_id := dict_get kvs ''id'',
             out := out s @ [JObj [(''jsonrpc'', JStr ''2.0''), (''id'', dict_get kvs ''id''),
                                   (''result'', JObj [(''success'', JBool False),
                                                      (''error'', JStr ''Timer already running'')])]]\<rparr>"
  using assms
  by (simp add: pomodoro_main_def Json_def dispatch_def start_timer_def already_running_def
      send_response_def response_def)

lemma start_monitor_running:
  "monitoring m \<Longrightarrow>
   start_monitor m = m\<lparr>out := out m @ [notification ''info'' (message msg_monitor_running)]\<rparr>"
  by (simp add: start_monitor_def send_def)

lemma started_eq:
  "started = \<lparr>out = [ready_event, JObj [(''jsonrpc'', JStr ''2.0''), (''id'', JInt 1),
                                   (''result'', JObj [(''success'', JBool True), (''remaining'', JInt 5)])]],
              err = [],
              timer = \<lparr>duration = JInt 5, remaining = JInt 5, is_running = True,
                       timer_thread = Some 0, start_time = Some ''2025-01-01T09:00:00''\<rparr>,
              threads = [Head], request_id = JInt 1\<rparr>"
  by (simp add: started_def start_request_def pomodoro_main_def Json_def dispatch_def start_timer_def
      init_backend_def init_timer_def dict_get_def dict_get_default_def send_response_def
      response_def Let_def)

lemma sampling_eq:
  "sampling = \<lparr>out = [notification ''backend_ready'' (message msg_backend_ready),
                      notification ''monitor_started'' (message msg_monitor_started)], err = [],
               monitoring = True, monitor_thread = Some 0, samplers = [MHead]\<rparr>"
  by (simp add: sampling_def init_monitor_def start_monitor_def send_def)

lemma owning_fields:
  "server_process owning = Some 4711"
  "effects owning = [ProbePort, Spawn 4711, ProbePort, ProbePort, ProbeInfo]"
  "err owning = []"
  "length (out owning) = 4"
  by (simp_all add: owning_def uiautodev_startup_def start_uiautodev_server_def cold_world_def
      init_inspector_def perform_def log_def emit_def send_ready_def Let_def)

text \<open>
  What holds of a start that is refused. While the timer's running flag is set,
  \<open>start_timer\<close> returns \<open>{"success": false, "error": "Timer already running"}\<close> and
  the state it leaves is the state it found: duration, remaining and the flag are
  unchanged and no thread is added to the process. Sent as a request with an id and an
  object for params, the call adds that one response to standard output and nothing
  else. The sampling task of the system monitor behaves alike: a start while the flag is
  set writes one \<open>info\<close> notification and changes nothing else.
\<close>

lemma start_while_running:
  assumes "is_running (timer s)"
  shows "start_timer now d s =
           (s, JObj [(''success'', JBool False), (''error'', JStr ''Timer already running'')])
       \<and> timer (fst (start_timer now d s)) = timer s
       \<and> threads (fst (start_timer now d s)) = threads s
       \<and> (dict_get kvs ''method'' = JStr ''start'' \<and> dict_get_default kvs ''params'' (JObj []) = JObj ps
            \<and> dict_get kvs ''id'' \<noteq> JNull \<longrightarrow>
          pomodoro_main rp now (Json (JObj kvs)) s =
            s\<lparr>request_id := dict_get kvs ''id'',
              out := out s @ [JObj [(''jsonrpc'', JStr ''2.0''), (''id'', dict_get kvs ''id''),
                                    (''result'', JObj [(''success'', JBool False),
                                                       (''error'', JStr ''Timer already running'')])]]\<rparr>)
       \<and> (monitoring m \<longrightarrow>
          start_monitor m = m\<lparr>out := out m @ [notification ''info'' (message msg_monitor_running)]\<rparr>)"
  using assms main_start_running[OF assms]
  by (simp add: start_timer_running already_running_def start_monitor_running)

lemma start_while_running_instance:
  "is_running (timer started)
   \<and> start_timer ''2025-01-01T09:00:02'' (JInt 5) started =
        (started, JObj [(''success'', JBool False), (''error'', JStr ''Timer already running'')])
   \<and> threads (fst (start_timer ''2025-01-01T09:00:02'' (JInt 5) started)) = [Head]
   \<and> out (pomodoro_main repr0 ''2025-01-01T09:00:02'' (Json start_request) started) =
        out started @ [JObj [(''jsonrpc'', JStr ''2.0''), (''id'', JInt 1),
                             (''result'', JObj [(''success'', JBool False),
                                                (''error'', JStr ''Timer already running'')])]]
   \<and> monitoring sampling
   \<and> samplers (start_monitor sampling) = [MHead]"
proof -
  have r: "is_running (timer started)" by (simp add: started_eq)
  show ?thesis
    using r start_while_running[OF r, of "''2025-01-01T09:00:02''" "JInt 5"
        "[(''jsonrpc'', JStr ''2.0''), (''id'', JInt 1), (''method'', JStr ''start''),
          (''params'', JObj [(''duration'', JInt 5)])]" "[(''duration'', JInt 5)]" repr0 sampling]
    by (simp add: start_request_def dict_get_def dict_get_default_def started_eq sampling_eq)
qed

text \<open>
  C1. The claim fails on the code in its last part. The refused start itself does what
  the claim says (\<open>start_while_running\<close> above), but a timer whose flag is set can
  have two live workers, and then two tick streams are observed. The run below is:
  start with duration 5, the worker enters its sleep, pause, a second start within
  that sleep, which finds the flag clear and adds worker 1 while worker 0 is still alive,
  then the start of the claim, which is refused with the response the claim gives. After
  it worker 0 wakes and writes the tick with remaining 4, and worker 1 writes the tick
  with remaining 3; both workers are still in the loop. The cause is the one of C3: pause
  does not wait for the worker and the worker does not test the flag after its sleep.
\<close>

theorem two_workers_while_running:
  "run repr0 [Line ''2025-01-01T09:00:00'' (Json (start_req 1 5)), Tick 0 None,
              Line ''2025-01-01T09:00:00'' (Json (pause_req 2)),
              Line ''2025-01-01T09:00:00'' (Json (start_req 3 5)),
              Line ''2025-01-01T09:00:00'' (Json (start_req 4 5)),
              Tick 1 None, Tick 0 None, Tick 0 None, Tick 1 None, Tick 1 None] init_backend =
     \<lparr>out = [ready_event,
             JObj [(''jsonrpc'', JStr ''2.0''), (''id'', JInt 1),
                   (''result'', JObj [(''success'', JBool True), (''remaining'', JInt 5)])],
             JObj [(''jsonrpc'', JStr ''2.0''), (''id'', JInt 2),
                   (''result'', JObj [(''success'', JBool True), (''remaining'', JInt 5)])],
             JObj [(''jsonrpc'', JStr ''2.0''), (''id'', JInt 3),
                   (''result'', JObj [(''success'', JBool True), (''remaining'', JInt 5)])],
             JObj [(''jsonrpc'', JStr ''2.0''), (''id'', JInt 4),
                   (''result'', JObj [(''success'', JBool False),
                                      (''error'', JStr ''Timer already running'')])],
             JObj [(''jsonrpc'', JStr ''2.0''), (''method'', JStr ''$event''),
                   (''params'', JObj [(''type'', JStr ''tick''), (''remaining'', JInt 4),
                                      (''total'', JInt 5)])],
             JObj [(''jsonrpc'', JStr ''2.0''), (''method'', JStr ''$event''),
                   (''params'', JObj [(''type'', JStr ''tick''), (''remaining'', JInt 3),
                                      (''total'', JInt 5)])]],
      err = [],
      timer = \<lparr>duration = JInt 5, remaining = JInt 3, is_running = True, timer_thread = Some 1,
               start_time = Some ''2025-01-01T09:00:00''\<rparr>,
      threads = [Sleeping, Sleeping], request_id = JInt 4\<rparr>"
  by (simp add: run_def pomodoro_main_def Json_def dispatch_def start_timer_def pause_timer_def
      timer_loop_def loop_body_def set_pc_def tick_event_def notification_def send_response_def
      response_def already_running_def start_req_def pause_req_def init_backend_def init_timer_def
      dict_get_def dict_get_default_def Let_def)

section \<open>Start without a duration\<close>

lemma start_timer_falsy:
  assumes "\<not> is_running (timer s)" and "\<not> truthy d"
  shows "start_timer now d s =
           (s\<lparr>timer := (timer s)\<lparr>remaining := duration (timer s), is_running := True,
                               start_time := Some now, timer_thread := Some (length (threads s))\<rparr>,
              threads := threads s @ [Head]\<rparr>,
            JObj [(''success'', JBool True), (''remaining'', duration (timer s))])"
  using assms by (simp add: start_timer_def Let_def)

lemma duration_start_timer:
  "truthy (duration (timer s)) \<Longrightarrow> truthy (duration (timer (fst (start_timer now d s))))"
  by (simp add: start_timer_def Let_def)

lemma duration_dispatch:
  "truthy (duration (timer s)) \<Longrightarrow> dispatch rp now m p s = Inr (s', r, e) \<Longrightarrow> truthy (duration (timer s'))"
  by (auto simp add: dispatch_def start_timer_def pause_timer_def reset_timer_def get_status_def
      send_def Let_def split: if_splits json.splits)

lemma duration_internal_error:
  "duration (timer (internal_error e s)) = duration (timer s)"
  by (simp add: internal_error_def send_response_def Let_def)

lemma duration_pomodoro_main:
  "truthy (duration (timer s)) \<Longrightarrow> truthy (duration (timer (pomodoro_main rp now l s)))"
proof (cases "raw l")
  case (DecodeError e)
  assume "truthy (duration (timer s))"
  then show ?thesis using DecodeError by (simp add: pomodoro_main_def)
next
  case (OtherError e)
  assume "truthy (duration (timer s))"
  then show ?thesis using OtherError by (simp add: pomodoro_main_def duration_internal_error)
next
  case (Decoded request)
  assume t: "truthy (duration (timer s))"
  show ?thesis
  proof (cases "\<exists>kvs. request = JObj kvs")
    case False
    then have "pomodoro_main rp now l s = internal_error (no_attribute_get request) s"
      using Decoded by (cases request) (simp_all add: pomodoro_main_def)
    then show ?thesis using t by (simp add: duration_internal_error)
  next
    case True
    then obtain kvs where kvs: "request = JObj kvs" by blast
    let ?s1 = "s\<lparr>request_id := dict_get kvs ''id''\<rparr>"
    let ?d = "dispatch rp now (dict_get kvs ''method'') (dict_get_default kvs ''params'' (JObj [])) ?s1"
    show ?thesis
    proof (cases ?d)
      case (Inl e)
      then show ?thesis using t Decoded kvs
        by (simp add: pomodoro_main_def duration_internal_error)
    next
      case (Inr r)
      obtain s2 res er where r: "r = (s2, res, er)" by (cases r)
      have "truthy (duration (timer s2))"
        using duration_dispatch[of ?s1 rp now _ _ s2 res er] t Inr r by simp
      then show ?thesis using Decoded kvs Inr r
        by (simp add: pomodoro_main_def send_response_def)
    qed
  qed
qed

lemma duration_timer_loop:
  "duration (timer (timer_loop notify i s)) = duration (timer s)"
  by (auto simp add: timer_loop_def loop_body_def set_pc_def Let_def split: pc.splits option.splits bool.splits)

lemma duration_step:
  "truthy (duration (timer s)) \<Longrightarrow> truthy (duration (timer (step rp ev s)))"
  by (cases ev) (simp_all add: duration_pomodoro_main duration_timer_loop)

lemma duration_run_gen:
  "truthy (duration (timer s)) \<Longrightarrow> truthy (duration (timer (fold (step rp) evs s)))"
  by (induction evs arbitrary: s) (simp_all add: duration_step)

lemma duration_reachable: "truthy (duration (timer (run rp evs init_backend)))"
  unfolding run_def by (rule duration_run_gen) (simp add: init_backend_def init_timer_def)

text \<open>
  C9. A start that is accepted (the running flag is clear) with a duration for which
  \<open>if duration:\<close> is false, which is the case for \<open>0\<close> and for \<open>None\<close> (the key
  omitted), resets \<open>remaining\<close> to the stored duration and leaves the stored duration
  as it is; the result dict reports that value. The stored duration is 1500 at startup
  and is never 0 in a state the backend can reach, so the countdown is not of length
  zero. The same holds for the request sent through \<open>main\<close>.
\<close>

theorem start_falls_back:
  assumes "\<not> is_running (timer s)" and "\<not> truthy d"
  shows "remaining (timer (fst (start_timer now d s))) = duration (timer s)
       \<and> duration (timer (fst (start_timer now d s))) = duration (timer s)
       \<and> snd (start_timer now d s) = JObj [(''success'', JBool True), (''remaining'', duration (timer s))]
       \<and> (s = run rp evs init_backend \<longrightarrow> remaining (timer (fst (start_timer now d s))) \<noteq> JInt 0)
       \<and> (dict_get kvs ''method'' = JStr ''start'' \<and> dict_get_default kvs ''params'' (JObj []) = JObj ps
            \<and> dict_get ps ''duration'' = d \<longrightarrow>
          remaining (timer (pomodoro_main rp now (Json (JObj kvs)) s)) = duration (timer s)
          \<and> duration (timer (pomodoro_main rp now (Json (JObj kvs)) s)) = duration (timer s))"
proof -
  have nz: "s = run rp evs init_backend \<longrightarrow> duration (timer s) \<noteq> JInt 0"
    using duration_reachable[of rp evs] by auto
  have m: "dict_get kvs ''method'' = JStr ''start'' \<and> dict_get_default kvs ''params'' (JObj []) = JObj ps
            \<and> dict_get ps ''duration'' = d \<longrightarrow>
          remaining (timer (pomodoro_main rp now (Json (JObj kvs)) s)) = duration (timer s)
          \<and> duration (timer (pomodoro_main rp now (Json (JObj kvs)) s)) = duration (timer s)"
    using assms
    by (simp add: pomodoro_main_def Json_def dispatch_def start_timer_def Let_def send_response_def)
  have r: "remaining (timer (fst (start_timer now d s))) = duration (timer s)"
    by (simp add: start_timer_falsy[OF assms])
  have u: "duration (timer (fst (start_timer now d s))) = duration (timer s)"
    by (simp add: start_timer_falsy[OF assms])
  have v: "snd (start_timer now d s) = JObj [(''success'', JBool True), (''remaining'', duration (timer s))]"
    by (simp add: start_timer_falsy[OF assms])
  have nz': "s = run rp evs init_backend \<longrightarrow> remaining (timer (fst (start_timer now d s))) \<noteq> JInt 0"
    unfolding r by (rule nz)
  from r u v nz' m show ?thesis by blast
qed

theorem start_falls_back_witness:
  "\<not> is_running (timer init_backend) \<and> \<not> truthy (JInt 0) \<and> \<not> truthy JNull
   \<and> remaining (timer (fst (start_timer ''2025-01-01T09:00:00'' (JInt 0) init_backend))) = JInt 1500
   \<and> duration (timer (fst (start_timer ''2025-01-01T09:00:00'' (JInt 0) init_backend))) = JInt 1500
   \<and> remaining (timer (pomodoro_main repr0 ''2025-01-01T09:00:00''
        (Json (JObj [(''id'', JInt 1), (''method'', JStr ''start''), (''params'', JObj [(''duration'', JInt 0)])]))
        init_backend)) = JInt 1500"
proof -
  have a: "\<not> is_running (timer init_backend)" by (simp add: init_backend_def init_timer_def)
  have b: "\<not> truthy (JInt 0)" by simp
  show ?thesis
    using a start_falls_back[OF a b, of "''2025-01-01T09:00:00''" repr0 "[]"
        "[(''id'', JInt 1), (''method'', JStr ''start''), (''params'', JObj [(''duration'', JInt 0)])]"
        "[(''duration'', JInt 0)]"]
    by (simp add: init_backend_def init_timer_def dict_get_def dict_get_default_def)
qed

section \<open>Status queries\<close>

lemma main_getStatus:
  assumes "dict_get kvs ''method'' = JStr ''getStatus''"
  shows "timer (pomodoro_main rp now (Json (JObj kvs)) s) = timer s"
    and "threads (pomodoro_main rp now (Json (JObj kvs)) s) = threads s"
  using assms
  by (simp_all add: pomodoro_main_def Json_def dispatch_def get_status_def send_response_def Let_def)

lemma handle_request_getServerUrl:
  assumes "dict_get_default kvs ''method'' (JStr []) = JStr ''getServerUrl''"
  shows "handle_request rp w kvs u = (u, Inr (JObj [(''result'', JObj [(''url'', JStr UIAUTODEV_URL)])]))"
  using assms by (simp add: handle_request_def)

lemma handle_request_getServerStatus:
  assumes "dict_get_default kvs ''method'' (JStr []) = JStr ''getServerStatus''"
  shows "handle_request rp w kvs u =
           (perform ProbePort u,
            Inr (JObj [(''result'', JObj [(''running'', JBool (port_in_use w)),
                                          (''url'', if port_in_use w then JStr UIAUTODEV_URL else JNull)])]))"
  using assms by (simp add: handle_request_def)

lemma server_process_write_response:
  "server_process (write_response rid resp u) = server_process u"
  by (simp add: write_response_def send_response_def split: json.splits)

lemma server_process_perform: "server_process (perform e u) = server_process u"
  by (simp add: perform_def)

text \<open>
  C10. A status query changes no supervisor field. \<open>get_status\<close> returns the state it
  was given. Handled through \<open>main\<close>, a \<open>getStatus\<close> request leaves the timer object
  (duration, remaining, running flag, thread handle, start time) and the threads as they
  were. In the inspection backend, \<open>getServerUrl\<close> and \<open>getServerStatus\<close> leave the
  child-process handle as it was, and \<open>main\<close> goes on.
\<close>

theorem status_query_frame:
  "fst (get_status s) = s
   \<and> (dict_get kvs ''method'' = JStr ''getStatus'' \<longrightarrow>
        timer (pomodoro_main rp now (Json (JObj kvs)) s) = timer s
        \<and> threads (pomodoro_main rp now (Json (JObj kvs)) s) = threads s)
   \<and> (dict_get_default kvs ''method'' (JStr []) = JStr ''getServerUrl''
        \<or> dict_get_default kvs ''method'' (JStr []) = JStr ''getServerStatus'' \<longrightarrow>
        server_process (fst (handle_request rp w kvs u)) = server_process u
        \<and> server_process (fst (uiautodev_main rp w (Json (JObj kvs)) u)) = server_process u
        \<and> snd (uiautodev_main rp w (Json (JObj kvs)) u) = None)"
proof -
  have a: "fst (get_status s) = s" by (simp add: get_status_def)
  have b: "dict_get kvs ''method'' = JStr ''getStatus'' \<longrightarrow>
        timer (pomodoro_main rp now (Json (JObj kvs)) s) = timer s
        \<and> threads (pomodoro_main rp now (Json (JObj kvs)) s) = threads s"
    by (simp add: main_getStatus)
  have c: "dict_get_default kvs ''method'' (JStr []) = JStr ''getServerUrl''
        \<or> dict_get_default kvs ''method'' (JStr []) = JStr ''getServerStatus'' \<longrightarrow>
        server_process (fst (handle_request rp w kvs u)) = server_process u
        \<and> server_process (fst (uiautodev_main rp w (Json (JObj kvs)) u)) = server_process u
        \<and> snd (uiautodev_main rp w (Json (JObj kvs)) u) = None"
    by (auto simp add: uiautodev_main_def Json_def handle_request_getServerUrl handle_request_getServerStatus
        server_process_write_response server_process_perform Let_def)
  from a b c show ?thesis by blast
qed

theorem status_query_frame_witness:
  "timer (pomodoro_main repr0 ''2025-01-01T09:00:03''
            (Json (JObj [(''id'', JInt 2), (''method'', JStr ''getStatus'')])) started) = timer started
   \<and> threads (pomodoro_main repr0 ''2025-01-01T09:00:03''
            (Json (JObj [(''id'', JInt 2), (''method'', JStr ''getStatus'')])) started) = [Head]
   \<and> server_process (fst (uiautodev_main repr0 quiet_world
            (Json (JObj [(''id'', JInt 2), (''method'', JStr ''getServerStatus'')])) owning)) = Some 4711"
  using status_query_frame[of started "[(''id'', JInt 2), (''method'', JStr ''getStatus'')]" repr0
      "''2025-01-01T09:00:03''" ]
    status_query_frame[of started "[(''id'', JInt 2), (''method'', JStr ''getServerStatus'')]" repr0
      "''2025-01-01T09:00:03''" quiet_world owning]
  by (simp add: dict_get_def dict_get_default_def started_eq owning_fields)

section \<open>Unknown methods\<close>

text \<open>
  C6. A request that carries an id and names a method outside the registered ones gets
  exactly one frame on standard output: the error response with that id, code -32601
  and message \<open>Method not found: \<close> followed by the method name. In the timer backend
  the timer object and the threads are unchanged (the local \<open>request_id\<close> of \<open>main\<close> now
  holds the id); in the inspection backend the whole state but the output is unchanged.
  An instance is the request \<open>{"id": 7, "method": "bogus"}\<close> of Scenario C.
\<close>

theorem unknown_method:
  assumes "map_of kvs ''method'' = Some (JStr m)" and "dict_get kvs ''id'' \<noteq> JNull"
  shows "(m \<notin> {''start'', ''pause'', ''reset'', ''getStatus''} \<longrightarrow>
          pomodoro_main rp now (Json (JObj kvs)) s =
            s\<lparr>request_id := dict_get kvs ''id'',
              out := out s @ [JObj [(''jsonrpc'', JStr ''2.0''), (''id'', dict_get kvs ''id''),
                                    (''error'', JObj [(''code'', JInt (- 32601)),
                                                      (''message'', JStr (''Method not found: '' @ m))])]]\<rparr>)
       \<and> (m \<notin> {''getServerUrl'', ''getServerStatus'', ''restartServer'', ''shutdown''} \<longrightarrow>
          uiautodev_main rp w (Json (JObj kvs)) u =
            (u\<lparr>out := out u @ [JObj [(''jsonrpc'', JStr ''2.0''), (''id'', dict_get kvs ''id''),
                                     (''error'', JObj [(''code'', JInt (- 32601)),
                                                       (''message'', JStr (''Method not found: '' @ m))])]]\<rparr>,
             None))"
  using assms
  by (simp add: pomodoro_main_def Json_def dispatch_def uiautodev_main_def Json_def handle_request_def write_response_def
      method_not_found_def send_response_def response_def dict_get_def dict_get_default_def Let_def)

theorem unknown_method_witness:
  "map_of bogus_request ''method'' = Some (JStr ''bogus'') \<and> dict_get bogus_request ''id'' \<noteq> JNull
   \<and> ''bogus'' \<notin> {''start'', ''pause'', ''reset'', ''getStatus''}
   \<and> ''bogus'' \<notin> {''getServerUrl'', ''getServerStatus'', ''restartServer'', ''shutdown''}
   \<and> pomodoro_main repr0 ''2025-01-01T09:00:03'' (Json (JObj bogus_request)) started =
        started\<lparr>request_id := JInt 7,
          out := out started @ [JObj [(''jsonrpc'', JStr ''2.0''), (''id'', JInt 7),
                                (''error'', JObj [(''code'', JInt (- 32601)),
                                                  (''message'', JStr ''Method not found: bogus'')])]]\<rparr>
   \<and> uiautodev_main repr0 quiet_world (Json (JObj bogus_request)) owning =
        (owning\<lparr>out := out owning @ [JObj [(''jsonrpc'', JStr ''2.0''), (''id'', JInt 7),
                                (''error'', JObj [(''code'', JInt (- 32601)),
                                                  (''message'', JStr ''Method not found: bogus'')])]]\<rparr>,
         None)"
proof -
  have a: "map_of bogus_request ''method'' = Some (JStr ''bogus'')" by (simp add: bogus_request_def)
  have b: "dict_get bogus_request ''id'' \<noteq> JNull"
    by (simp add: bogus_request_def dict_get_def dict_get_default_def)
  show ?thesis
    using a b unknown_method[OF a b, of repr0 "''2025-01-01T09:00:03''" started quiet_world owning]
    by (simp add: bogus_request_def dict_get_def dict_get_default_def)
qed

section \<open>Requests without an id\<close>

















section \<open>Scenario A\<close>

lemma counting_other:
  assumes "counting base n j p s" and "i \<noteq> n"
  shows "timer_loop nf i s = s"
proof (cases "i < n")
  case True
  then show ?thesis using assms by (simp add: counting_def timer_loop_def)
next
  case False
  then show ?thesis using assms by (simp add: counting_def timer_loop_def)
qed

lemma counting_head:
  assumes "counting base n j Head s" and "j < 5"
  shows "counting base n j Sleeping (timer_loop nf n s)"
  using assms
  by (auto simp add: counting_def timer_loop_def set_pc_def nth_list_update)

lemma counting_head_last:
  assumes "counting base n 5 Head s"
  shows "counting base n 5 Done (timer_loop nf n s)"
  using assms
  by (auto simp add: counting_def timer_loop_def set_pc_def nth_list_update)

lemma counting_done:
  assumes "counting base n j Done s"
  shows "timer_loop nf i s = s"
  using assms by (cases "i < Suc n") (auto simp add: counting_def timer_loop_def less_Suc_eq)

lemma counting_sleeping:
  assumes "counting base n j Sleeping s"
  shows "counting base n (Suc j) Head (timer_loop nf n s)"
proof -
  from assms have j: "j < 5" by (auto simp add: counting_def)
  then consider "j = 0" | "j = 1" | "j = 2" | "j = 3" | "j = 4" by linarith
  then show ?thesis
  proof cases
    case 1 then show ?thesis using assms
      by (auto simp add: counting_def timer_loop_def loop_body_def set_pc_def nth_list_update
          countdown_frames_def tick_event_def complete_event_def notification_def Let_def
          split: option.splits)
  next
    case 2 then show ?thesis using assms
      by (auto simp add: counting_def timer_loop_def loop_body_def set_pc_def nth_list_update
          countdown_frames_def tick_event_def complete_event_def notification_def Let_def
          split: option.splits)
  next
    case 3 then show ?thesis using assms
      by (auto simp add: counting_def timer_loop_def loop_body_def set_pc_def nth_list_update
          countdown_frames_def tick_event_def complete_event_def notification_def Let_def
          split: option.splits)
  next
    case 4 then show ?thesis using assms
      by (auto simp add: counting_def timer_loop_def loop_body_def set_pc_def nth_list_update
          countdown_frames_def tick_event_def complete_event_def notification_def Let_def
          split: option.splits)
  next
    case 5 then show ?thesis using assms
      by (auto simp add: counting_def timer_loop_def loop_body_def set_pc_def nth_list_update
          countdown_frames_def tick_event_def complete_event_def notification_def Let_def
          split: option.splits)
  qed
qed

lemma counting_round:
  assumes "counting base n j Head s" and "j < 5"
  shows "counting base n (Suc j) Head (timer_loop nf n (timer_loop nf n s))"
  by (rule counting_sleeping[OF counting_head[OF assms]])

lemma counting_step:
  assumes "counting base n j p s"
  shows "\<exists>j' p'. j \<le> j' \<and> counting base n j' p' (timer_loop nf i s)"
proof (cases "i = n")
  case False
  then show ?thesis using counting_other[OF assms] assms by auto
next
  case True
  show ?thesis
  proof (cases p)
    case Head
    show ?thesis
    proof (cases "j < 5")
      case True
      with Head assms \<open>i = n\<close> counting_head[of base n j s nf] show ?thesis by blast
    next
      case False
      with assms have "j = 5" by (simp add: counting_def)
      with Head assms \<open>i = n\<close> counting_head_last[of base n s nf] show ?thesis by blast
    qed
  next
    case Sleeping
    with assms True counting_sleeping[of base n j s nf] show ?thesis
      by (metis le_SucI order_refl)
  next
    case Done
    with assms counting_done[of base n j s nf i] show ?thesis by auto
  qed
qed

lemma counting_run:
  assumes "counting base n j p s"
  shows "\<exists>j' p'. j \<le> j' \<and> counting base n j' p' (run rp (map (\<lambda>(i, nf). Tick i nf) sched) s)"
  using assms
proof (induction sched arbitrary: j p s)
  case Nil
  then show ?case by (auto simp add: run_def)
next
  case (Cons a sched)
  obtain i nf where a: "a = (i, nf)" by (cases a)
  from counting_step[OF Cons.prems, of nf i]
  obtain j1 p1 where j1: "j \<le> j1" "counting base n j1 p1 (timer_loop nf i s)" by blast
  from Cons.IH[OF j1(2)] obtain j2 p2 where
    "j1 \<le> j2" "counting base n j2 p2 (run rp (map (\<lambda>(i, nf). Tick i nf) sched) (timer_loop nf i s))"
    by blast
  with j1(1) a show ?case by (auto simp add: run_def intro: order_trans)
qed

lemma counting_start:
  assumes "\<not> is_running (timer s)" and "\<forall>p\<in>set (threads s). p = Done"
    and "dict_get kvs ''method'' = JStr ''start''" and "dict_get kvs ''id'' = JInt 1"
    and "dict_get_default kvs ''params'' (JObj []) = JObj ps" and "dict_get ps ''duration'' = JInt 5"
  shows "counting (out s @ [JObj [(''jsonrpc'', JStr ''2.0''), (''id'', JInt 1),
                                  (''result'', JObj [(''success'', JBool True), (''remaining'', JInt 5)])]])
           (length (threads s)) 0 Head (pomodoro_main rp now (Json (JObj kvs)) s)"
  using assms
  by (simp add: counting_def pomodoro_main_def Json_def dispatch_def start_timer_def send_response_def
      response_def Let_def nth_append)

lemma run_eleven:
  assumes "counting base n 0 Head s"
  shows "counting base n 5 Done (run rp (replicate 11 (Tick n nf)) s)"
proof -
  let ?t = "timer_loop nf n"
  have 1: "counting base n 1 Head (?t (?t s))"
    using counting_round[OF assms, of nf] by (simp add: eval_nat_numeral)
  have 2: "counting base n 2 Head (?t (?t (?t (?t s))))"
    using counting_round[OF 1, of nf] by (simp add: eval_nat_numeral)
  have 3: "counting base n 3 Head (?t (?t (?t (?t (?t (?t s))))))"
    using counting_round[OF 2, of nf] by (simp add: eval_nat_numeral)
  have 4: "counting base n 4 Head (?t (?t (?t (?t (?t (?t (?t (?t s))))))))"
    using counting_round[OF 3, of nf] by (simp add: eval_nat_numeral)
  have 5: "counting base n 5 Head (?t (?t (?t (?t (?t (?t (?t (?t (?t (?t s))))))))))"
    using counting_round[OF 4, of nf] by (simp add: eval_nat_numeral)
  have r: "run rp (replicate 11 (Tick n nf)) s = ?t (?t (?t (?t (?t (?t (?t (?t (?t (?t (?t s))))))))))"
    by (simp add: run_def eval_nat_numeral)
  show ?thesis unfolding r by (rule counting_head_last[OF 5])
qed


lemma counting_out:
  assumes "counting base n j p s"
  shows "\<exists>k\<le>6. out s = base @ take k countdown_frames"
proof -
  let ?k = "if j = 5 then 6 else j"
  from assms have "?k \<le> 6" "out s = base @ take ?k countdown_frames"
    by (simp_all add: counting_def)
  then show ?thesis by blast
qed

text \<open>
  Scenario A from a state without a live worker: the flag is clear and every thread
  started earlier has returned. The start request with id 1 and duration 5 is answered by exactly
  one frame, the response with \<open>success\<close> true and \<open>remaining\<close> 5. With no further
  input, eleven steps of the new worker write the ticks with remaining 4, 3, 2, 1, 0 and
  then the completion, in this order; whatever worker steps are scheduled, the frames
  after the response are a prefix of these six; and once the six are written no
  schedule of worker steps adds a frame, so no tick follows the completion.
\<close>

lemma scenario_A:
  assumes "\<not> is_running (timer s)" and "\<forall>p\<in>set (threads s). p = Done"
    and "dict_get kvs ''method'' = JStr ''start''" and "dict_get kvs ''id'' = JInt 1"
    and "dict_get_default kvs ''params'' (JObj []) = JObj ps" and "dict_get ps ''duration'' = JInt 5"
  shows "out (pomodoro_main rp now (Json (JObj kvs)) s) =
           out s @ [JObj [(''jsonrpc'', JStr ''2.0''), (''id'', JInt 1),
                          (''result'', JObj [(''success'', JBool True), (''remaining'', JInt 5)])]]
       \<and> out (run rp (replicate 11 (Tick (length (threads s)) nf)) (pomodoro_main rp now (Json (JObj kvs)) s)) =
           out s @ JObj [(''jsonrpc'', JStr ''2.0''), (''id'', JInt 1),
                         (''result'', JObj [(''success'', JBool True), (''remaining'', JInt 5)])]
                 # countdown_frames
       \<and> (\<exists>k\<le>6. out (run rp (map (\<lambda>(i, nf). Tick i nf) sched) (pomodoro_main rp now (Json (JObj kvs)) s)) =
           out s @ JObj [(''jsonrpc'', JStr ''2.0''), (''id'', JInt 1),
                         (''result'', JObj [(''success'', JBool True), (''remaining'', JInt 5)])]
                 # take k countdown_frames)
       \<and> out (run rp (replicate 11 (Tick (length (threads s)) nf) @ map (\<lambda>(i, nf). Tick i nf) sched)
                (pomodoro_main rp now (Json (JObj kvs)) s)) =
           out s @ JObj [(''jsonrpc'', JStr ''2.0''), (''id'', JInt 1),
                         (''result'', JObj [(''success'', JBool True), (''remaining'', JInt 5)])]
                 # countdown_frames"
proof -
  let ?resp = "JObj [(''jsonrpc'', JStr ''2.0''), (''id'', JInt 1),
                     (''result'', JObj [(''success'', JBool True), (''remaining'', JInt 5)])]"
  let ?s1 = "pomodoro_main rp now (Json (JObj kvs)) s"
  let ?n = "length (threads s)"
  let ?s2 = "run rp (replicate 11 (Tick ?n nf)) ?s1"
  have c0: "counting (out s @ [?resp]) ?n 0 Head ?s1"
    by (rule counting_start[OF assms])
  have a: "out ?s1 = out s @ [?resp]"
    using c0 by (simp add: counting_def)
  have c5: "counting (out s @ [?resp]) ?n 5 Done ?s2"
    by (rule run_eleven[OF c0])
  have b: "out ?s2 = out s @ ?resp # countdown_frames"
    using c5 by (simp add: counting_def countdown_frames_def)
  have c: "\<exists>k\<le>6. out (run rp (map (\<lambda>(i, nf). Tick i nf) sched) ?s1) = out s @ ?resp # take k countdown_frames"
    using counting_run[OF c0, of rp sched] counting_out by fastforce
  from counting_run[OF c5, of rp sched] obtain j' p' where
    j': "5 \<le> j'" "counting (out s @ [?resp]) ?n j' p' (run rp (map (\<lambda>(i, nf). Tick i nf) sched) ?s2)"
    by blast
  then have "j' = 5" by (simp add: counting_def)
  with j'(2) have "out (run rp (map (\<lambda>(i, nf). Tick i nf) sched) ?s2) = out s @ ?resp # countdown_frames"
    by (simp add: counting_def countdown_frames_def)
  then have d: "out (run rp (replicate 11 (Tick ?n nf) @ map (\<lambda>(i, nf). Tick i nf) sched) ?s1) =
                  out s @ ?resp # countdown_frames"
    by (simp add: run_def)
  from a b c d show ?thesis by blast
qed

lemma scenario_A_from_startup:
  "\<not> is_running (timer init_backend) \<and> threads init_backend = []
   \<and> out (run repr0 (Line ''2025-01-01T09:00:00'' (Json start_request) # replicate 11 (Tick 0 None))
             init_backend) =
       [ready_event,
        JObj [(''jsonrpc'', JStr ''2.0''), (''id'', JInt 1),
              (''result'', JObj [(''success'', JBool True), (''remaining'', JInt 5)])],
        JObj [(''jsonrpc'', JStr ''2.0''), (''method'', JStr ''$event''),
              (''params'', JObj [(''type'', JStr ''tick''), (''remaining'', JInt 4), (''total'', JInt 5)])],
        JObj [(''jsonrpc'', JStr ''2.0''), (''method'', JStr ''$event''),
              (''params'', JObj [(''type'', JStr ''tick''), (''remaining'', JInt 3), (''total'', JInt 5)])],
        JObj [(''jsonrpc'', JStr ''2.0''), (''method'', JStr ''$event''),
              (''params'', JObj [(''type'', JStr ''tick''), (''remaining'', JInt 2), (''total'', JInt 5)])],
        JObj [(''jsonrpc'', JStr ''2.0''), (''method'', JStr ''$event''),
              (''params'', JObj [(''type'', JStr ''tick''), (''remaining'', JInt 1), (''total'', JInt 5)])],
        JObj [(''jsonrpc'', JStr ''2.0''), (''method'', JStr ''$event''),
              (''params'', JObj [(''type'', JStr ''tick''), (''remaining'', JInt 0), (''total'', JInt 5)])],
        JObj [(''jsonrpc'', JStr ''2.0''), (''method'', JStr ''$event''),
              (''params'', JObj [(''type'', JStr ''complete'')])]]"
proof -
  have a: "\<not> is_running (timer init_backend)" by (simp add: init_backend_def init_timer_def)
  have b: "\<forall>p\<in>set (threads init_backend). p = Done" by (simp add: init_backend_def)
  have m: "dict_get [(''jsonrpc'', JStr ''2.0''), (''id'', JInt 1), (''method'', JStr ''start''),
                     (''params'', JObj [(''duration'', JInt 5)])] ''method'' = JStr ''start''"
    by (simp add: dict_get_def dict_get_default_def)
  have i: "dict_get [(''jsonrpc'', JStr ''2.0''), (''id'', JInt 1), (''method'', JStr ''start''),
                     (''params'', JObj [(''duration'', JInt 5)])] ''id'' = JInt 1"
    by (simp add: dict_get_def dict_get_default_def)
  have p: "dict_get_default [(''jsonrpc'', JStr ''2.0''), (''id'', JInt 1), (''method'', JStr ''start''),
                     (''params'', JObj [(''duration'', JInt 5)])] ''params'' (JObj []) = JObj [(''duration'', JInt 5)]"
    by (simp add: dict_get_default_def)
  have d: "dict_get [(''duration'', JInt 5)] ''duration'' = JInt 5"
    by (simp add: dict_get_def dict_get_default_def)
  have r: "run repr0 (Line ''2025-01-01T09:00:00'' (Json start_request) # replicate 11 (Tick 0 None)) init_backend
           = run repr0 (replicate 11 (Tick 0 None))
               (pomodoro_main repr0 ''2025-01-01T09:00:00'' (Json start_request) init_backend)"
    by (simp add: run_def)
  have t: "length (threads init_backend) = 0" "out init_backend = [ready_event]"
    by (simp_all add: init_backend_def)
  show ?thesis
    using a scenario_A[OF a b m i p d, of repr0 "''2025-01-01T09:00:00''" None "[]"]
    unfolding r by (simp add: start_request_def t countdown_frames_def init_backend_def)
qed

text \<open>
  C2. The claim fails on the code when the timer is not running but a worker of an
  earlier run is still alive. The run below is: a start with duration 60, the worker
  enters its sleep, pause, and within that sleep the request of Scenario A. The flag is
  clear, so the start is accepted and answered with \<open>remaining\<close> 5, and worker 1 is
  added while worker 0 is still alive. The two workers then count the same timer down:
  the ticks with remaining 4, 3, 2, 1, 0 and the completion are followed by a tick with
  remaining -1 and a second completion. From a state without a live worker the scenario
  runs as the claim says (\<open>scenario_A\<close> above). The cause is the one of C3.
\<close>

theorem tick_after_completion:
  "run repr0 [Line ''2025-01-01T09:00:00'' (Json (start_req 8 60)), Tick 0 None,
              Line ''2025-01-01T09:00:00'' (Json (pause_req 9)),
              Line ''2025-01-01T09:00:00'' (Json start_request),
              Tick 1 None, Tick 0 None, Tick 0 None, Tick 1 None, Tick 1 None,
              Tick 0 None, Tick 0 None, Tick 1 None, Tick 1 None,
              Tick 0 None, Tick 0 None, Tick 1 None, Tick 1 None] init_backend =
     \<lparr>out = [ready_event,
             JObj [(''jsonrpc'', JStr ''2.0''), (''id'', JInt 8),
                   (''result'', JObj [(''success'', JBool True), (''remaining'', JInt 60)])],
             JObj [(''jsonrpc'', JStr ''2.0''), (''id'', JInt 9),
                   (''result'', JObj [(''success'', JBool True), (''remaining'', JInt 60)])],
             JObj [(''jsonrpc'', JStr ''2.0''), (''id'', JInt 1),
                   (''result'', JObj [(''success'', JBool True), (''remaining'', JInt 5)])],
             JObj [(''jsonrpc'', JStr ''2.0''), (''method'', JStr ''$event''),
                   (''params'', JObj [(''type'', JStr ''tick''), (''remaining'', JInt 4),
                                      (''total'', JInt 5)])],
             JObj [(''jsonrpc'', JStr ''2.0''), (''method'', JStr ''$event''),
                   (''params'', JObj [(''type'', JStr ''tick''), (''remaining'', JInt 3),
                                      (''total'', JInt 5)])],
             JObj [(''jsonrpc'', JStr ''2.0''), (''method'', JStr ''$event''),
                   (''params'', JObj [(''type'', JStr ''tick''), (''remaining'', JInt 2),
                                      (''total'', JInt 5)])],
             JObj [(''jsonrpc'', JStr ''2.0''), (''method'', JStr ''$event''),
                   (''params'', JObj [(''type'', JStr ''tick''), (''remaining'', JInt 1),
                                      (''total'', JInt 5)])],
             JObj [(''jsonrpc'', JStr ''2.0''), (''method'', JStr ''$event''),
                   (''params'', JObj [(''type'', JStr ''tick''), (''remaining'', JInt 0),
                                      (''total'', JInt 5)])],
             JObj [(''jsonrpc'', JStr ''2.0''), (''method'', JStr ''$event''),
                   (''params'', JObj [(''type'', JStr ''complete'')])],
             JObj [(''jsonrpc'', JStr ''2.0''), (''method'', JStr ''$event''),
                   (''params'', JObj [(''type'', JStr ''tick''), (''remaining'', JInt (- 1)),
                                      (''total'', JInt 5)])],
             JObj [(''jsonrpc'', JStr ''2.0''), (''method'', JStr ''$event''),
                   (''params'', JObj [(''type'', JStr ''complete'')])]],
      err = [],
      timer = \<lparr>duration = JInt 5, remaining = JInt (- 1), is_running = False, timer_thread = Some 1,
               start_time = Some ''2025-01-01T09:00:00''\<rparr>,
      threads = [Done, Done], request_id = JInt 1\<rparr>"
  by (simp add: run_def pomodoro_main_def Json_def dispatch_def start_timer_def pause_timer_def
      timer_loop_def loop_body_def set_pc_def tick_event_def complete_event_def notification_def
      send_response_def response_def start_req_def pause_req_def start_request_def
      init_backend_def init_timer_def dict_get_def dict_get_default_def Let_def)

section \<open>Start of the external job\<close>

lemma spawned_append: "spawned (xs @ ys) = spawned xs @ spawned ys"
  by (induction xs rule: spawned.induct) simp_all

text \<open>
  C8. When the probe at the entry of \<open>start_uiautodev_server\<close> finds the port in use,
  the call returns \<open>True\<close> after writing one log notification: it creates no child (the
  list of children created is what it was) and leaves the child handle as it found it.
  A start that finds the service answering therefore never adds a worker.
\<close>

theorem start_adopts:
  assumes "port_in_use w"
  shows "start_uiautodev_server w s =
           (s\<lparr>effects := effects s @ [ProbePort],
              out := out s @ [JObj [(''jsonrpc'', JStr ''2.0''), (''method'', JStr ''$event''),
                                    (''params'', JObj [(''event'', JStr ''log''),
                                       (''data'', JObj [(''level'', JStr ''info''),
                                                        (''message'', JStr log_already_running)])])]]\<rparr>,
            True)
       \<and> server_process (fst (start_uiautodev_server w s)) = server_process s
       \<and> spawned (effects (fst (start_uiautodev_server w s))) = spawned (effects s)"
  using assms
  by (simp add: start_uiautodev_server_def perform_def log_def emit_def spawned_append Let_def)

theorem start_adopts_witness:
  "port_in_use quiet_world
   \<and> snd (start_uiautodev_server quiet_world init_inspector) = True
   \<and> server_process (fst (start_uiautodev_server quiet_world init_inspector)) = None
   \<and> spawned (effects (fst (start_uiautodev_server quiet_world init_inspector))) = []"
proof -
  have a: "port_in_use quiet_world" by (simp add: quiet_world_def)
  show ?thesis
    using a start_adopts[OF a, of init_inspector] by (simp add: init_inspector_def)
qed

lemma server_process_wait_for_server:
  "server_process (fst (wait_for_server ps s)) = server_process s"
  by (induction ps s rule: wait_for_server.induct) (simp_all add: perform_def)

lemma spawned_wait_for_server:
  "spawned (effects (fst (wait_for_server ps s))) = spawned (effects s)"
  by (induction ps s rule: wait_for_server.induct) (simp_all add: perform_def spawned_append)

lemma start_spawns_when_port_closed:
  assumes "\<not> port_in_use w" and "spawn w = Inr pid"
  shows "server_process (fst (start_uiautodev_server w s)) = Some pid"
    and "spawned (effects (fst (start_uiautodev_server w s))) = spawned (effects s) @ [pid]"
  using assms
  by (simp_all add: start_uiautodev_server_def perform_def log_def emit_def Let_def case_prod_beta
      server_process_wait_for_server spawned_wait_for_server spawned_append)

section \<open>Stop of the external job\<close>

lemma stop_without_child:
  "server_process s = None \<Longrightarrow>
   stop_uiautodev_server w s = (s\<lparr>effects := effects s @ [ShutdownCall]\<rparr>, None)"
  by (simp add: stop_uiautodev_server_def shutdown_request_def perform_def)

lemma stop_with_child:
  assumes "server_process s = Some pid"
    and "\<not> (terminate_raises w = None \<and> wait_outcome w = TimeoutExpired \<and> kill_raises w \<noteq> None)"
  shows "stop_uiautodev_server w s =
           (s\<lparr>server_process := None,
              effects := effects s @ Terminate pid #
                (if terminate_raises w \<noteq> None then []
                 else Wait pid # (if wait_outcome w = TimeoutExpired then [Kill pid] else []))
                @ [ShutdownCall]\<rparr>, None)"
  using assms
  by (auto simp add: stop_uiautodev_server_def shutdown_request_def perform_def Let_def
      split: option.splits wait_outcome.splits)

text \<open>
  C7. The claim holds on every path but one (\<open>stop_without_child\<close> and
  \<open>stop_with_child\<close> above give the effects in order, the shutdown request last). The
  path it misses: the child is owned, \<open>terminate\<close> returns, \<open>wait\<close> times out and
  \<open>kill\<close>, called inside the handler of the timeout, raises. That exception leaves
  \<open>stop_uiautodev_server\<close>: the shutdown request is never made and the handle is not
  cleared.
\<close>

theorem stop_kill_failure:
  "stop_uiautodev_server stubborn_world owning =
     (owning\<lparr>effects := effects owning @ [Terminate 4711, Wait 4711, Kill 4711]\<rparr>,
      Some ''[Errno 1] Operation not permitted'')
   \<and> ShutdownCall \<notin> set (effects (fst (stop_uiautodev_server stubborn_world owning)))
   \<and> server_process (fst (stop_uiautodev_server stubborn_world owning)) = Some 4711"
  by (simp add: stop_uiautodev_server_def stubborn_world_def owning_fields perform_def Let_def)

section \<open>Pause\<close>

lemma pause_then_wake:
  assumes "i < length (threads s)" and "threads s ! i = Sleeping" and "is_running (timer s)"
    and "remaining (timer s) = JInt r" and "1 < r"
    and "dict_get kvs ''method'' = JStr ''pause''" and "dict_get kvs ''id'' \<noteq> JNull"
  shows "out (timer_loop nf i (pomodoro_main rp now (Json (JObj kvs)) s)) =
           out s @ [JObj [(''jsonrpc'', JStr ''2.0''), (''id'', dict_get kvs ''id''),
                          (''result'', JObj [(''success'', JBool True), (''remaining'', JInt r)])],
                    tick_event (JInt (r - 1)) (duration (timer s))]"
    and "remaining (timer (timer_loop nf i (pomodoro_main rp now (Json (JObj kvs)) s))) = JInt (r - 1)"
  using assms
  by (simp_all add: pomodoro_main_def Json_def dispatch_def pause_timer_def send_response_def response_def
      timer_loop_def loop_body_def set_pc_def Let_def)

lemma stop_monitor_joins:
  assumes "monitoring m" and "monitor_thread m = Some i" and "i < length (samplers m)"
  shows "samplers (stop_monitor sample m) ! i = MDone"
    and "last (out (stop_monitor sample m)) = notification ''monitor_stopped'' (message msg_monitor_stopped)"
  using assms
  by (simp_all add: stop_monitor_def join_def set_mpc_def send_def Let_def split: mpc.splits)

lemma monitor_loop_done:
  "i < length (samplers m) \<Longrightarrow> samplers m ! i = MDone \<Longrightarrow> monitor_loop sample i m = m"
  by (simp add: monitor_loop_def)

text \<open>
  C3. The claim fails on the code. The worker tests the running flag only at the head of
  its loop, before the sleep. A pause handled while the worker sleeps is acknowledged,
  and the worker then wakes, decrements and writes one more tick (\<open>pause_then_wake\<close>
  above, for every such state with more than one second left); only at the next test of
  the flag does it return. The run below is: start with duration 5, the worker enters
  its sleep, pause is acknowledged with remaining 5, the worker wakes and writes the
  tick with remaining 4, then returns. The system monitor does it the other way round:
  \<open>stop_monitor\<close> joins the worker before it writes its acknowledgement
  (\<open>stop_monitor_joins\<close>).
\<close>

theorem tick_after_pause:
  "run repr0 [Line ''2025-01-01T09:00:00'' (Json start_request), Tick 0 None,
              Line ''2025-01-01T09:00:02'' (Json pause_request), Tick 0 None, Tick 0 None] init_backend =
     \<lparr>out = [ready_event,
             JObj [(''jsonrpc'', JStr ''2.0''), (''id'', JInt 1),
                   (''result'', JObj [(''success'', JBool True), (''remaining'', JInt 5)])],
             JObj [(''jsonrpc'', JStr ''2.0''), (''id'', JInt 2),
                   (''result'', JObj [(''success'', JBool True), (''remaining'', JInt 5)])],
             JObj [(''jsonrpc'', JStr ''2.0''), (''method'', JStr ''$event''),
                   (''params'', JObj [(''type'', JStr ''tick''), (''remaining'', JInt 4),
                                      (''total'', JInt 5)])]],
      err = [],
      timer = \<lparr>duration = JInt 5, remaining = JInt 4, is_running = False, timer_thread = Some 0,
               start_time = Some ''2025-01-01T09:00:00''\<rparr>,
      threads = [Done], request_id = JInt 2\<rparr>"
  by (simp add: run_def pomodoro_main_def Json_def dispatch_def start_timer_def pause_timer_def timer_loop_def
      loop_body_def set_pc_def tick_event_def notification_def send_response_def response_def
      start_request_def pause_request_def init_backend_def init_timer_def dict_get_def
      dict_get_default_def Let_def)

text \<open>
  A consequence: a start that follows the pause within the sleep finds the flag clear and
  adds a second worker while the first is still alive, and the two count the same timer
  down past zero.
\<close>

lemma two_tick_streams:
  "drop 4 (out (run repr0 [Line ''2025-01-01T09:00:00'' (Json start_request), Tick 0 None,
                           Line ''2025-01-01T09:00:02'' (Json pause_request),
                           Line ''2025-01-01T09:00:02'' (Json restart_request),
                           Tick 0 None, Tick 1 None, Tick 0 None, Tick 0 None, Tick 1 None]
                    init_backend)) =
     [tick_event (JInt 1) (JInt 2), tick_event (JInt 0) (JInt 2), complete_event,
      tick_event (JInt (- 1)) (JInt 2), complete_event]"
  by (simp add: run_def pomodoro_main_def Json_def dispatch_def start_timer_def pause_timer_def timer_loop_def
      loop_body_def set_pc_def send_response_def response_def
      start_request_def pause_request_def restart_request_def init_backend_def init_timer_def
      dict_get_def dict_get_default_def Let_def)

section \<open>Lines that are not JSON\<close>

lemma start_timer_err:
  "start_timer now d (s\<lparr>err := x\<rparr>) = ((fst (start_timer now d s))\<lparr>err := x\<rparr>, snd (start_timer now d s))"
  by (simp add: start_timer_def Let_def)

lemma pause_timer_err:
  "pause_timer (s\<lparr>err := x\<rparr>) = ((fst (pause_timer s))\<lparr>err := x\<rparr>, snd (pause_timer s))"
  by (simp add: pause_timer_def)

lemma reset_timer_err:
  "reset_timer (s\<lparr>err := x\<rparr>) = ((fst (reset_timer s))\<lparr>err := x\<rparr>, snd (reset_timer s))"
  by (simp add: reset_timer_def send_def Let_def)

lemma get_status_err:
  "get_status (s\<lparr>err := x\<rparr>) = ((fst (get_status s))\<lparr>err := x\<rparr>, snd (get_status s))"
  by (simp add: get_status_def)

lemma err_methods:
  "err (fst (start_timer now d s)) = err s"
  "err (fst (pause_timer s)) = err s"
  "err (fst (reset_timer s)) = err s"
  "err (fst (get_status s)) = err s"
  by (simp_all add: start_timer_def pause_timer_def reset_timer_def get_status_def send_def Let_def)

lemma dispatch_err:
  "dispatch rp now m p (s\<lparr>err := x\<rparr>) =
     (case dispatch rp now m p s of Inl e \<Rightarrow> Inl e | Inr (s', r, e) \<Rightarrow> Inr (s'\<lparr>err := x\<rparr>, r, e))"
  by (simp add: dispatch_def start_timer_err pause_timer_err reset_timer_err get_status_err
      case_prod_beta split: json.splits)

lemma err_dispatch: "dispatch rp now m p s = Inr (s', r, e) \<Longrightarrow> err s' = err s"
  by (auto simp add: dispatch_def case_prod_beta err_methods split: if_splits json.splits)

lemma internal_error_err:
  "internal_error e (s\<lparr>err := x\<rparr>) = (internal_error e s)\<lparr>err := x @ [HandlerDiag e]\<rparr>"
  by (simp add: internal_error_def send_response_def Let_def)

lemma err_internal_error: "err (internal_error e s) = err s @ [HandlerDiag e]"
  by (simp add: internal_error_def send_response_def Let_def)

lemma pomodoro_main_err:
  "pomodoro_main rp now l (s\<lparr>err := x\<rparr>) =
     (pomodoro_main rp now l s)\<lparr>err := x @ drop (length (err s)) (err (pomodoro_main rp now l s))\<rparr>"
proof (cases "raw l")
  case (DecodeError e)
  then show ?thesis by (simp add: pomodoro_main_def)
next
  case (OtherError e)
  then show ?thesis by (simp add: pomodoro_main_def internal_error_err err_internal_error)
next
  case (Decoded request)
  show ?thesis
  proof (cases "\<exists>kvs. request = JObj kvs")
    case False
    then have "pomodoro_main rp now l t = internal_error (no_attribute_get request) t" for t
      using Decoded by (cases request) (simp_all add: pomodoro_main_def)
    then show ?thesis by (simp add: internal_error_err err_internal_error)
  next
    case True
    then obtain kvs where kvs: "request = JObj kvs" by blast
    let ?s1 = "s\<lparr>request_id := dict_get kvs ''id''\<rparr>"
    let ?d = "dispatch rp now (dict_get kvs ''method'') (dict_get_default kvs ''params'' (JObj [])) ?s1"
    have sw: "s\<lparr>err := x, request_id := dict_get kvs ''id''\<rparr> = ?s1\<lparr>err := x\<rparr>" by simp
    show ?thesis
    proof (cases ?d)
      case (Inl e)
      then show ?thesis using Decoded kvs
        by (simp add: pomodoro_main_def sw dispatch_err internal_error_err err_internal_error)
    next
      case (Inr t)
      obtain s2 r e where t: "t = (s2, r, e)" by (cases t)
      have e2: "err s2 = err s" using err_dispatch[of rp now _ _ ?s1 s2 r e] Inr t by simp
      show ?thesis using Decoded kvs Inr t e2
        by (simp add: pomodoro_main_def sw dispatch_err send_response_def)
    qed
  qed
qed

lemma send_out:
  "send method params (m\<lparr>out := x\<rparr>) = (send method params m)\<lparr>out := x @ [notification method params]\<rparr>"
  by (simp add: send_def)

lemma out_send: "out (send method params m) = out m @ [notification method params]"
  by (simp add: send_def)

lemma start_monitor_out:
  "start_monitor (m\<lparr>out := x\<rparr>) =
     (start_monitor m)\<lparr>out := x @ drop (length (out m)) (out (start_monitor m))\<rparr>"
  by (simp add: start_monitor_def send_def)

lemma join_out:
  "join sample i (m\<lparr>out := x\<rparr>) =
     (join sample i m)\<lparr>out := x @ drop (length (out m)) (out (join sample i m))\<rparr>"
  by (simp add: join_def set_mpc_def send_def split: mpc.splits)

lemma stop_monitor_out:
  "stop_monitor sample (m\<lparr>out := x\<rparr>) =
     (stop_monitor sample m)\<lparr>out := x @ drop (length (out m)) (out (stop_monitor sample m))\<rparr>"
  by (simp add: stop_monitor_def join_def set_mpc_def send_def Let_def split: option.splits mpc.splits)

lemma handle_command_out:
  "handle_command info sample payload (m\<lparr>out := x\<rparr>) =
     (case handle_command info sample payload m of
        Inl e \<Rightarrow> Inl e
      | Inr m' \<Rightarrow> Inr (m'\<lparr>out := x @ drop (length (out m)) (out m')\<rparr>))"
  by (simp add: handle_command_def send_out out_send start_monitor_out stop_monitor_out Let_def
      split: json.splits)

lemma monitor_main_out:
  "monitor_main info sample l (m\<lparr>out := x\<rparr>) =
     (case monitor_main info sample l m of
        (m', r) \<Rightarrow> (m'\<lparr>out := x @ drop (length (out m)) (out m')\<rparr>, r))"
proof (cases "stripped l")
  case None
  then show ?thesis by (simp add: monitor_main_def)
next
  case (Some ld)
  show ?thesis
  proof (cases ld)
    case (DecodeError e)
    then show ?thesis using Some by (simp add: monitor_main_def send_out out_send)
  next
    case (OtherError e)
    then show ?thesis using Some by (simp add: monitor_main_def)
  next
    case (Decoded payload)
    show ?thesis
    proof (cases "handle_command info sample payload m")
      case (Inl e)
      then show ?thesis using Some Decoded
        by (simp add: monitor_main_def handle_command_out send_out out_send)
    next
      case (Inr m')
      then show ?thesis using Some Decoded
        by (simp add: monitor_main_def handle_command_out)
    qed
  qed
qed

text \<open>
  What the backends do when \<open>json.loads\<close> fails with an exception of another class: the
  timer backend takes it for a handler failure, the other two end their loop.
\<close>

lemma other_decode_failure:
  "raw l = OtherError x \<Longrightarrow> pomodoro_main rp now l s = internal_error x s"
  "stripped l = Some (OtherError x) \<Longrightarrow> uiautodev_main rp w l u = (u, Some x)"
  "stripped l = Some (OtherError x) \<Longrightarrow> monitor_main info sample l m = (m, Some x)"
  by (simp_all add: pomodoro_main_def uiautodev_main_def monitor_main_def)

lemma too_deep_after_request:
  "out (pomodoro_main repr0 ''2025-01-01T09:00:03'' too_deep started) =
     out started @
       [JObj [(''jsonrpc'', JStr ''2.0''), (''id'', JInt 1),
              (''error'', JObj [(''code'', JInt (- 32603)),
                 (''message'', JStr ''Internal error: maximum recursion depth exceeded while decoding a JSON array from a unicode string'')])]]"
  by (simp add: pomodoro_main_def too_deep_def internal_error_def send_response_def response_def
      started_eq Let_def)

text \<open>
  C4, as stated, fails on the timer backend and on the inspection backend. On the line
  \<open>not json\<close> the timer backend adds no frame to standard output: its handler of the
  decode error writes the text of the error to standard error. The inspection backend
  writes nothing at all.
\<close>

theorem decode_error_to_stderr:
  "out (pomodoro_main repr0 ''2025-01-01T09:00:00'' not_json init_backend) = out init_backend
   \<and> err (pomodoro_main repr0 ''2025-01-01T09:00:00'' not_json init_backend) =
       [JsonDecodeDiag ''Expecting value: line 1 column 1 (char 0)'']
   \<and> uiautodev_main repr0 quiet_world not_json owning = (owning, None)"
  by (simp add: pomodoro_main_def uiautodev_main_def not_json_def init_backend_def
      str_decode_error_def)

text \<open>
  C4, amended. On a line on which the decoder raises \<open>json.JSONDecodeError\<close>, and in the
  two backends that strip the line on a blank line, no backend leaves its read loop, and
  the only trace of the line is: in the timer backend, one diagnostic on standard error
  and nothing on standard output; in the system monitor, one \<open>error\<close> notification on
  standard output carrying the decoder's message, or nothing when the line is blank; in
  the inspection backend, nothing. The line that follows is processed as it would have
  been without the bad line: the state it leaves differs only by that trace. A failure
  of the decoder with an exception of another class is outside this statement.
\<close>

theorem undecodable_line:
  "(raw l = DecodeError e \<longrightarrow>
      pomodoro_main rp now l s = s\<lparr>err := err s @ [JsonDecodeDiag (str_decode_error e)]\<rparr>
      \<and> pomodoro_main rp now2 l2 (pomodoro_main rp now l s) =
           (pomodoro_main rp now2 l2 s)
             \<lparr>err := err s @ JsonDecodeDiag (str_decode_error e)
                       # drop (length (err s)) (err (pomodoro_main rp now2 l2 s))\<rparr>)
   \<and> (stripped l = Some (DecodeError e) \<longrightarrow>
      monitor_main info sample l m =
        (m\<lparr>out := out m @
            [JObj [(''jsonrpc'', JStr ''2.0''), (''method'', JStr ''error''),
                   (''params'', JObj [(''message'',
                      JStr (''JSON '' @ [CHR 0xE8, CHR 0xA7, CHR 0xA3, CHR 0xE6, CHR 0x9E, CHR 0x90,
                                         CHR 0xE5, CHR 0xA4, CHR 0xB1, CHR 0xE8, CHR 0xB4, CHR 0xA5]
                            @ '': '' @ msg e))])]]\<rparr>, None)
      \<and> monitor_main info2 sample2 l3 (fst (monitor_main info sample l m)) =
           (case monitor_main info2 sample2 l3 m of
              (m', r) \<Rightarrow> (m'\<lparr>out := out (fst (monitor_main info sample l m))
                                      @ drop (length (out m)) (out m')\<rparr>, r))
      \<and> uiautodev_main rp w l u = (u, None))
   \<and> (stripped l = None \<longrightarrow>
      monitor_main info sample l m = (m, None) \<and> uiautodev_main rp w l u = (u, None))"
proof -
  have a: "raw l = DecodeError e \<longrightarrow>
      pomodoro_main rp now l s = s\<lparr>err := err s @ [JsonDecodeDiag (str_decode_error e)]\<rparr>"
    by (simp add: pomodoro_main_def)
  have b: "raw l = DecodeError e \<longrightarrow>
      pomodoro_main rp now2 l2 (pomodoro_main rp now l s) =
           (pomodoro_main rp now2 l2 s)
             \<lparr>err := err s @ JsonDecodeDiag (str_decode_error e)
                       # drop (length (err s)) (err (pomodoro_main rp now2 l2 s))\<rparr>"
  proof
    assume "raw l = DecodeError e"
    with a have "pomodoro_main rp now l s = s\<lparr>err := err s @ [JsonDecodeDiag (str_decode_error e)]\<rparr>"
      by simp
    then show "pomodoro_main rp now2 l2 (pomodoro_main rp now l s) =
           (pomodoro_main rp now2 l2 s)
             \<lparr>err := err s @ JsonDecodeDiag (str_decode_error e)
                       # drop (length (err s)) (err (pomodoro_main rp now2 l2 s))\<rparr>"
      by (simp add: pomodoro_main_err)
  qed
  have c: "stripped l = Some (DecodeError e) \<longrightarrow>
      monitor_main info sample l m =
        (m\<lparr>out := out m @
            [JObj [(''jsonrpc'', JStr ''2.0''), (''method'', JStr ''error''),
                   (''params'', JObj [(''message'',
                      JStr (''JSON '' @ [CHR 0xE8, CHR 0xA7, CHR 0xA3, CHR 0xE6, CHR 0x9E, CHR 0x90,
                                         CHR 0xE5, CHR 0xA4, CHR 0xB1, CHR 0xE8, CHR 0xB4, CHR 0xA5]
                            @ '': '' @ msg e))])]]\<rparr>, None)"
    by (simp add: monitor_main_def send_def notification_def message_def msg_json_failed_def)
  have d: "stripped l = Some (DecodeError e) \<longrightarrow>
      monitor_main info2 sample2 l3 (fst (monitor_main info sample l m)) =
           (case monitor_main info2 sample2 l3 m of
              (m', r) \<Rightarrow> (m'\<lparr>out := out (fst (monitor_main info sample l m))
                                      @ drop (length (out m)) (out m')\<rparr>, r))"
  proof
    assume h: "stripped l = Some (DecodeError e)"
    then have e: "fst (monitor_main info sample l m) =
                    m\<lparr>out := out m @ [notification ''error'' (message (msg_json_failed (msg e)))]\<rparr>"
      by (simp add: monitor_main_def send_def)
    show "monitor_main info2 sample2 l3 (fst (monitor_main info sample l m)) =
           (case monitor_main info2 sample2 l3 m of
              (m', r) \<Rightarrow> (m'\<lparr>out := out (fst (monitor_main info sample l m))
                                      @ drop (length (out m)) (out m')\<rparr>, r))"
      unfolding e by (simp add: monitor_main_out)
  qed
  have f: "stripped l = Some (DecodeError e) \<longrightarrow> uiautodev_main rp w l u = (u, None)"
    by (simp add: uiautodev_main_def)
  have g: "stripped l = None \<longrightarrow>
      monitor_main info sample l m = (m, None) \<and> uiautodev_main rp w l u = (u, None)"
    by (simp add: monitor_main_def uiautodev_main_def)
  from a b c d f g show ?thesis by blast
qed

theorem undecodable_line_witness:
  "raw not_json = DecodeError (JSONDecodeError ''Expecting value'' 1 1 0)
   \<and> stripped not_json = Some (DecodeError (JSONDecodeError ''Expecting value'' 1 1 0))
   \<and> stripped blank_line = None
   \<and> pomodoro_main repr0 ''2025-01-01T09:00:01'' (Json start_request)
        (pomodoro_main repr0 ''2025-01-01T09:00:00'' not_json init_backend) =
       started\<lparr>err := [JsonDecodeDiag ''Expecting value: line 1 column 1 (char 0)''],
               timer := (timer started)\<lparr>start_time := Some ''2025-01-01T09:00:01''\<rparr>\<rparr>
   \<and> out (fst (monitor_main JNull JNull (Json (JObj [(''command'', JStr ''start_monitor'')]))
                  (fst (monitor_main JNull JNull not_json init_monitor)))) =
       [notification ''backend_ready'' (message msg_backend_ready),
        JObj [(''jsonrpc'', JStr ''2.0''), (''method'', JStr ''error''),
              (''params'', JObj [(''message'',
                 JStr (''JSON '' @ [CHR 0xE8, CHR 0xA7, CHR 0xA3, CHR 0xE6, CHR 0x9E, CHR 0x90,
                                    CHR 0xE5, CHR 0xA4, CHR 0xB1, CHR 0xE8, CHR 0xB4, CHR 0xA5]
                       @ '': Expecting value''))])],
        notification ''monitor_started'' (message msg_monitor_started)]
   \<and> monitor_main JNull JNull blank_line init_monitor = (init_monitor, None)
   \<and> uiautodev_main repr0 quiet_world blank_line owning = (owning, None)"
proof -
  have a: "raw not_json = DecodeError (JSONDecodeError ''Expecting value'' 1 1 0)"
    by (simp add: not_json_def)
  have b: "stripped not_json = Some (DecodeError (JSONDecodeError ''Expecting value'' 1 1 0))"
    by (simp add: not_json_def)
  have c: "stripped blank_line = None"
    by (simp add: blank_line_def)
  show ?thesis
    using a b c
      undecodable_line[where l=not_json and e="JSONDecodeError ''Expecting value'' 1 1 0"
        and rp=repr0 and now="''2025-01-01T09:00:00''" and s=init_backend
        and ?now2.0="''2025-01-01T09:00:01''" and ?l2.0="Json start_request" and info=JNull and sample=JNull
        and m=init_monitor and ?info2.0=JNull and ?sample2.0=JNull
        and ?l3.0="Json (JObj [(''command'', JStr ''start_monitor'')])" and w=quiet_world and u=owning]
      undecodable_line[where l=blank_line and info=JNull and sample=JNull and m=init_monitor
        and rp=repr0 and w=quiet_world and u=owning]
    by (simp add: str_decode_error_def started_eq init_backend_def init_timer_def
        init_monitor_def monitor_main_def handle_command_def start_monitor_def send_def
        dict_get_def dict_get_default_def Json_def
        pomodoro_main_def dispatch_def start_timer_def send_response_def response_def
        start_request_def Let_def)
qed

end
